theory Spec2Isabelle
  imports Complex_Main "HOL-Library.AList" "HOL-Library.Multiset" "HOL-Library.Sublist"
begin

section \<open>Values of the JavaScript runtime\<close>

text \<open>
  A JavaScript string is a sequence of UTF-16 code units; a code unit is modelled as a
  natural number, so that the rupee sign (U+20B9) and the Unicode white space that the
  regular expressions and \<open>trim\<close> look for are single elements.  \<open>ascii\<close> turns an
  Isabelle literal into such a string.
\<close>

type_synonym jsstring = "nat list"

definition ascii :: "string \<Rightarrow> jsstring" where
  "ascii s = map of_char s"

datatype js_error = TypeError

section \<open>Document generator: \<open>src/pages/InvoicesPage.tsx\<close>\<close>

text \<open>
  The numeric fields of a line item and of the totals are the finite numbers that the
  number inputs deliver (\<open>Number(e.target.value)\<close>) and the results of \<open>+\<close> and
  \<open>*\<close> on them.  Finite numbers are modelled as exact rationals: the rounding of the
  IEEE double arithmetic is outside the model.
\<close>

datatype DocType = Invoice | Quotation | Bill

record InvoiceItem =
  description :: jsstring
  hsn :: jsstring
  qty :: rat
  rate :: rat
  amount :: rat

record Totals =
  subtotal :: rat
  tax_percent :: rat
  tax_amount :: rat
  total_f :: rat
  terms :: jsstring
  note_f :: jsstring

record InvoiceData =
  doc_type :: DocType
  doc_no :: jsstring
  customer_name :: jsstring
  customer_address :: jsstring
  customer_phone :: jsstring
  items :: "InvoiceItem list"
  totals :: Totals
  currency_code :: jsstring

definition DEFAULT_TERMS :: jsstring where
  "DEFAULT_TERMS = ascii
     (''1. Goods/Services once sold/provided will not be taken back.'' @ [CHR 0x0A] @
      ''2. Payment is due within 7 days from the document date.'' @ [CHR 0x0A] @
      ''3. Please verify all details before making payment.'' @ [CHR 0x0A] @
      ''4. This is a computer generated document and does not require signature.'' @ [CHR 0x0A] @
      ''5. Subject to local jurisdiction.'')"

definition DEFAULT_NOTE :: jsstring where
  "DEFAULT_NOTE = ascii
     (''Dear Sir / Madam,'' @ [CHR 0x0A] @
      ''Thank you for your business. Please find the document details below.'')"

definition introText :: "DocType \<Rightarrow> jsstring" where
  "introText t =
     (if t = Quotation then ascii
        (''Dear Sir / Madam,'' @ [CHR 0x0A] @
         ''We are pleased to submit the following quotation for your consideration.'')
      else if t = Bill then ascii
        (''Dear Sir / Madam,'' @ [CHR 0x0A] @ ''Thank you. Please find the bill details below.'')
      else ascii
        (''Dear Sir / Madam,'' @ [CHR 0x0A] @
         ''Thank you for your business. Please find the invoice details below.''))"

text \<open>The item \<open>{ description: "", hsn: "", qty: 1, rate: 0, amount: 0 }\<close>.\<close>

definition blank_item :: InvoiceItem where
  "blank_item = \<lparr>description = [], hsn = [], qty = 1, rate = 0, amount = 0\<rparr>"

text \<open>The initial value of the \<open>form\<close> state.\<close>

definition initial_form :: InvoiceData where
  "initial_form =
     \<lparr>doc_type = Invoice, doc_no = [], customer_name = [], customer_address = [],
      customer_phone = [], items = [blank_item],
      totals = \<lparr>subtotal = 0, tax_percent = 0, tax_amount = 0, total_f = 0,
                terms = DEFAULT_TERMS, note_f = DEFAULT_NOTE\<rparr>,
      currency_code = ascii ''INR''\<rparr>"

text \<open>\<open>x || 0\<close> on a finite number: zero is falsy and is replaced by \<open>0\<close>.\<close>

definition or0 :: "rat \<Rightarrow> rat" where
  "or0 x = (if x = 0 then 0 else x)"

text \<open>
  \<open>recalcTotals(items, taxPercent)\<close>: the reduce over the items, then
  \<open>setForm((prev) => ...)\<close>, which is the returned form.
\<close>

definition recalcTotals :: "InvoiceItem list \<Rightarrow> rat \<Rightarrow> InvoiceData \<Rightarrow> InvoiceData" where
  "recalcTotals its taxPercent prev =
     (let subtotal' = foldl (\<lambda>s i. s + or0 (amount i)) 0 its;
          tax_amount' = subtotal' * (or0 taxPercent / 100);
          total' = subtotal' + tax_amount'
      in prev\<lparr>items := its,
               totals := (totals prev)\<lparr>subtotal := subtotal', tax_percent := or0 taxPercent,
                                        tax_amount := tax_amount', total_f := total'\<rparr>\<rparr>)"

text \<open>
  \<open>updateItem(idx, field, value)\<close>.  The pair of \<open>field\<close> and \<open>value\<close> is one
  constructor of \<open>item_edit\<close>.  \<open>items[idx]\<close> is \<open>undefined\<close> when \<open>idx\<close> is out of
  range, and the assignment to its property throws a TypeError.
\<close>

datatype item_edit =
  SetDescription jsstring | SetHsn jsstring | SetQty rat | SetRate rat | SetAmount rat

fun assign_field :: "item_edit \<Rightarrow> InvoiceItem \<Rightarrow> InvoiceItem" where
  "assign_field (SetDescription s) it = it\<lparr>description := s\<rparr>"
| "assign_field (SetHsn s) it = it\<lparr>hsn := s\<rparr>"
| "assign_field (SetQty n) it = it\<lparr>qty := n\<rparr>"
| "assign_field (SetRate n) it = it\<lparr>rate := n\<rparr>"
| "assign_field (SetAmount n) it = it\<lparr>amount := n\<rparr>"

fun qty_or_rate :: "item_edit \<Rightarrow> bool" where
  "qty_or_rate (SetQty n) = True"
| "qty_or_rate (SetRate n) = True"
| "qty_or_rate e = False"

definition updateItem :: "nat \<Rightarrow> item_edit \<Rightarrow> InvoiceData \<Rightarrow> js_error + InvoiceData" where
  "updateItem idx e form =
     (if idx < length (items form) then
        let it = assign_field e (items form ! idx);
            it' = (if qty_or_rate e then it\<lparr>amount := or0 (qty it) * or0 (rate it)\<rparr> else it)
        in Inr (recalcTotals ((items form)[idx := it']) (tax_percent (totals form)) form)
      else Inl TypeError)"

definition addItem :: "InvoiceData \<Rightarrow> InvoiceData" where
  "addItem form = recalcTotals (items form @ [blank_item]) (tax_percent (totals form)) form"

text \<open>\<open>xs.filter((_, i) => i !== idx)\<close>\<close>

definition filter_index_neq :: "nat \<Rightarrow> 'a list \<Rightarrow> 'a list" where
  "filter_index_neq idx xs = map snd (filter (\<lambda>p. fst p \<noteq> idx) (enumerate 0 xs))"

definition removeItem :: "nat \<Rightarrow> InvoiceData \<Rightarrow> InvoiceData" where
  "removeItem idx form =
     (let its = filter_index_neq idx (items form)
      in recalcTotals (if length its \<noteq> 0 then its else [blank_item])
           (tax_percent (totals form)) form)"

text \<open>
  The events of the form that reach the item list or the tax percent, as the JSX binds
  them: the description, HSN, quantity and rate inputs of item \<open>idx\<close>, the "Add Item"
  and "Remove" buttons, and the tax input, whose handler is
  \<open>recalcTotals(form.items, Number(e.target.value))\<close>.  A handler that throws leaves the
  state as it was.
\<close>

datatype ui_event =
    EditDescription nat jsstring
  | EditHsn nat jsstring
  | EditQty nat rat
  | EditRate nat rat
  | AddItem
  | RemoveItem nat
  | TaxChange rat

fun handle :: "ui_event \<Rightarrow> InvoiceData \<Rightarrow> js_error + InvoiceData" where
  "handle (EditDescription idx s) form = updateItem idx (SetDescription s) form"
| "handle (EditHsn idx s) form = updateItem idx (SetHsn s) form"
| "handle (EditQty idx n) form = updateItem idx (SetQty n) form"
| "handle (EditRate idx n) form = updateItem idx (SetRate n) form"
| "handle AddItem form = Inr (addItem form)"
| "handle (RemoveItem idx) form = Inr (removeItem idx form)"
| "handle (TaxChange n) form = Inr (recalcTotals (items form) n form)"

fun run :: "ui_event list \<Rightarrow> InvoiceData \<Rightarrow> InvoiceData" where
  "run [] form = form"
| "run (e # es) form = run es (case handle e form of Inl err \<Rightarrow> form | Inr form' \<Rightarrow> form')"

text \<open>What the claims say of a form: its totals are those of its item list.\<close>

definition totals_current :: "InvoiceData \<Rightarrow> bool" where
  "totals_current form \<longleftrightarrow>
     subtotal (totals form) = sum_list (map amount (items form)) \<and>
     tax_amount (totals form) = subtotal (totals form) * (tax_percent (totals form) / 100) \<and>
     total_f (totals form) = subtotal (totals form) + tax_amount (totals form)"

definition amounts_current :: "InvoiceData \<Rightarrow> bool" where
  "amounts_current form \<longleftrightarrow> list_all (\<lambda>it. amount it = qty it * rate it) (items form)"


subsection \<open>Opening a stored document\<close>

text \<open>
  A row of the table \<open>invoices\<close>, as \<open>openEdit(d)\<close> reads it.  The text columns, the
  JSON array \<open>items\<close> and the JSON object \<open>totals\<close> may be \<open>null\<close>, and a field of
  \<open>totals\<close> may be missing: these are \<open>None\<close>.  The stored type is one of the three
  that the form writes.
\<close>

record StoredTotals =
  s_subtotal :: "rat option"
  s_tax_percent :: "rat option"
  s_tax_amount :: "rat option"
  s_total :: "rat option"
  s_terms :: "jsstring option"
  s_note :: "jsstring option"

record StoredDoc =
  d_id :: jsstring
  d_type :: "DocType option"
  d_doc_no :: "jsstring option"
  d_customer_name :: "jsstring option"
  d_customer_address :: "jsstring option"
  d_customer_phone :: "jsstring option"
  d_items :: "InvoiceItem list option"
  d_totals :: "StoredTotals option"
  d_currency_code :: "jsstring option"

text \<open>\<open>s || dflt\<close> on a string or \<open>null\<close>: \<open>null\<close> and the empty string are falsy.\<close>

definition text_or :: "jsstring option \<Rightarrow> jsstring \<Rightarrow> jsstring" where
  "text_or s dflt = (case s of None \<Rightarrow> dflt | Some t \<Rightarrow> if t = [] then dflt else t)"

text \<open>\<open>Number(d.totals?.f || 0)\<close> for a field \<open>f\<close> of the stored totals.\<close>

definition stored_number :: "StoredTotals option \<Rightarrow> (StoredTotals \<Rightarrow> rat option) \<Rightarrow> rat" where
  "stored_number t f =
     (case t of None \<Rightarrow> 0 | Some st \<Rightarrow> (case f st of None \<Rightarrow> 0 | Some x \<Rightarrow> or0 x))"

definition stored_text ::
  "StoredTotals option \<Rightarrow> (StoredTotals \<Rightarrow> jsstring option) \<Rightarrow> jsstring \<Rightarrow> jsstring" where
  "stored_text t f dflt = (case t of None \<Rightarrow> dflt | Some st \<Rightarrow> text_or (f st) dflt)"

text \<open>
  The form that \<open>openEdit(d)\<close> sets.  \<open>(d.items as InvoiceItem[]) || [blank]\<close> is the
  stored array whenever there is one: an array is truthy, the empty one as well.  The
  totals are the stored ones; \<open>recalcTotals\<close> is not called.
\<close>

definition openEdit :: "StoredDoc \<Rightarrow> InvoiceData" where
  "openEdit d =
     \<lparr>doc_type = (case d_type d of None \<Rightarrow> Invoice | Some t \<Rightarrow> t),
      doc_no = text_or (d_doc_no d) [],
      customer_name = text_or (d_customer_name d) [],
      customer_address = text_or (d_customer_address d) [],
      customer_phone = text_or (d_customer_phone d) [],
      items = (case d_items d of None \<Rightarrow> [blank_item] | Some its \<Rightarrow> its),
      totals =
        \<lparr>subtotal = stored_number (d_totals d) s_subtotal,
         tax_percent = stored_number (d_totals d) s_tax_percent,
         tax_amount = stored_number (d_totals d) s_tax_amount,
         total_f = stored_number (d_totals d) s_total,
         terms = stored_text (d_totals d) s_terms DEFAULT_TERMS,
         note_f = stored_text (d_totals d) s_note DEFAULT_NOTE\<rparr>,
      currency_code = text_or (d_currency_code d) (ascii ''INR'')\<rparr>"

text \<open>
  Two stored documents: one as the schema's defaults leave it (\<open>items\<close> is \<open>[]\<close>,
  \<open>totals\<close> is \<open>{}\<close>), and one whose item was edited to 5 at 10 after its totals were
  stored.
\<close>

definition default_doc :: StoredDoc where
  "default_doc =
     \<lparr>d_id = ascii ''d1'', d_type = Some Invoice, d_doc_no = None, d_customer_name = None,
      d_customer_address = None, d_customer_phone = None, d_items = Some [],
      d_totals = Some \<lparr>s_subtotal = None, s_tax_percent = None, s_tax_amount = None,
                       s_total = None, s_terms = None, s_note = None\<rparr>,
      d_currency_code = Some (ascii ''INR'')\<rparr>"

definition edited_doc :: StoredDoc where
  "edited_doc =
     \<lparr>d_id = ascii ''d2'', d_type = Some Invoice, d_doc_no = Some (ascii ''INV-1''),
      d_customer_name = Some (ascii ''Asha''), d_customer_address = None,
      d_customer_phone = None,
      d_items = Some [\<lparr>description = ascii ''Pen'', hsn = [], qty = 5, rate = 10, amount = 50\<rparr>],
      d_totals = Some \<lparr>s_subtotal = Some 0, s_tax_percent = Some 0, s_tax_amount = Some 0,
                       s_total = Some 0, s_terms = Some DEFAULT_TERMS,
                       s_note = Some DEFAULT_NOTE\<rparr>,
      d_currency_code = Some (ascii ''INR'')\<rparr>"
section \<open>Numbers, values and strings of the runtime\<close>

text \<open>
  A JavaScript number is a finite value, \<open>NaN\<close> or an infinity.  Finite values are
  modelled as exact rationals: the rounding of the double arithmetic, its overflow and
  the negative zero are outside the model.  The cells of a row (\<open>Record<string, any>\<close>,
  read from JSON) are modelled by the primitive values.
\<close>

datatype jsnum = Fin rat | NaN | PosInf | NegInf

datatype jsval = JUndefined | JNull | JBool bool | JNum jsnum | JStr jsstring

text \<open>\<open>Number.isFinite\<close>\<close>

fun isFinite :: "jsnum \<Rightarrow> bool" where
  "isFinite (Fin r) = True"
| "isFinite n = False"

text \<open>The value of a number where it is finite, and \<open>0\<close> elsewhere.\<close>

fun num_val :: "jsnum \<Rightarrow> rat" where
  "num_val (Fin r) = r"
| "num_val n = 0"

text \<open>\<open>a + b\<close> and \<open>a - b\<close> on numbers.\<close>

fun num_neg :: "jsnum \<Rightarrow> jsnum" where
  "num_neg (Fin r) = Fin (- r)"
| "num_neg NaN = NaN"
| "num_neg PosInf = NegInf"
| "num_neg NegInf = PosInf"

fun num_add :: "jsnum \<Rightarrow> jsnum \<Rightarrow> jsnum" where
  "num_add (Fin a) (Fin b) = Fin (a + b)"
| "num_add NaN b = NaN"
| "num_add a NaN = NaN"
| "num_add PosInf NegInf = NaN"
| "num_add NegInf PosInf = NaN"
| "num_add PosInf b = PosInf"
| "num_add NegInf b = NegInf"
| "num_add a PosInf = PosInf"
| "num_add a NegInf = NegInf"

definition num_sub :: "jsnum \<Rightarrow> jsnum \<Rightarrow> jsnum" where
  "num_sub a b = num_add a (num_neg b)"

text \<open>
  White space of the language (WhiteSpace and LineTerminator): what \<open>\s\<close>,
  \<open>String.prototype.trim\<close> and the conversion of a string to a number skip.
\<close>

definition is_space :: "nat \<Rightarrow> bool" where
  "is_space c \<longleftrightarrow>
     c = 9 \<or> c = 10 \<or> c = 11 \<or> c = 12 \<or> c = 13 \<or> c = 32 \<or> c = 160 \<or> c = 5760 \<or>
     (8192 \<le> c \<and> c \<le> 8202) \<or> c = 8232 \<or> c = 8233 \<or> c = 8239 \<or> c = 8287 \<or>
     c = 12288 \<or> c = 65279"

definition trim :: "jsstring \<Rightarrow> jsstring" where
  "trim s = rev (dropWhile is_space (rev (dropWhile is_space s)))"

text \<open>\<open>s.includes(w)\<close>: \<open>w\<close> occurs in \<open>s\<close> as a contiguous run of code units.\<close>

fun starts_with :: "jsstring \<Rightarrow> jsstring \<Rightarrow> bool" where
  "starts_with s [] = True"
| "starts_with [] (w # ws) = False"
| "starts_with (c # cs) (w # ws) = (c = w \<and> starts_with cs ws)"

fun includes_js :: "jsstring \<Rightarrow> jsstring \<Rightarrow> bool" where
  "includes_js [] w = (w = [])"
| "includes_js (c # cs) w = (starts_with (c # cs) w \<or> includes_js cs w)"

subsection \<open>The conversion of a string to a number\<close>

text \<open>
  \<open>Number(s)\<close> on a string, after StringToNumber of ECMA-262: white space is stripped
  on both sides; the empty string is \<open>0\<close>; a hexadecimal, octal or binary integer literal
  takes no sign; a decimal literal is an optional sign, then \<open>Infinity\<close> or digits with
  an optional fraction and an optional exponent; anything else is \<open>NaN\<close>.
\<close>

definition is_digit :: "nat \<Rightarrow> bool" where
  "is_digit c \<longleftrightarrow> 48 \<le> c \<and> c \<le> 57"

text \<open>The value of a digit in a base up to 16, if the code unit is one.\<close>

definition digit_in_base :: "nat \<Rightarrow> nat \<Rightarrow> nat option" where
  "digit_in_base b c =
     (let d = (if 48 \<le> c \<and> c \<le> 57 then Some (c - 48)
               else if 97 \<le> c \<and> c \<le> 102 then Some (c - 87)
               else if 65 \<le> c \<and> c \<le> 70 then Some (c - 55)
               else None)
      in case d of None \<Rightarrow> None | Some v \<Rightarrow> if v < b then Some v else None)"

fun digits_in_base :: "nat \<Rightarrow> nat \<Rightarrow> jsstring \<Rightarrow> nat option" where
  "digits_in_base b acc [] = Some acc"
| "digits_in_base b acc (c # cs) =
     (case digit_in_base b c of
        None \<Rightarrow> None
      | Some v \<Rightarrow> digits_in_base b (acc * b + v) cs)"

definition integer_literal :: "nat \<Rightarrow> jsstring \<Rightarrow> jsnum" where
  "integer_literal b ds =
     (if ds = [] then NaN
      else case digits_in_base b 0 ds of None \<Rightarrow> NaN | Some n \<Rightarrow> Fin (of_nat n))"

definition digits_value :: "jsstring \<Rightarrow> nat" where
  "digits_value ds = foldl (\<lambda>a c. a * 10 + (c - 48)) 0 ds"

text \<open>The exponent after \<open>e\<close> or \<open>E\<close>: an optional sign and at least one digit.\<close>

definition exponent_digits :: "jsstring \<Rightarrow> nat option" where
  "exponent_digits ds = (if ds \<noteq> [] \<and> list_all is_digit ds then Some (digits_value ds) else None)"

definition scale_by_exponent :: "rat \<Rightarrow> jsstring \<Rightarrow> rat option" where
  "scale_by_exponent m s =
     (case s of
        [] \<Rightarrow> None
      | c # cs \<Rightarrow>
          if c = 45 then map_option (\<lambda>n. m / 10 ^ n) (exponent_digits cs)
          else if c = 43 then map_option (\<lambda>n. m * 10 ^ n) (exponent_digits cs)
          else map_option (\<lambda>n. m * 10 ^ n) (exponent_digits (c # cs)))"

definition unsigned_decimal :: "jsstring \<Rightarrow> rat option" where
  "unsigned_decimal s =
     (let ip = takeWhile is_digit s;
          r1 = dropWhile is_digit s;
          fp = (case r1 of [] \<Rightarrow> [] | c # t \<Rightarrow> if c = 46 then takeWhile is_digit t else []);
          r2 = (case r1 of [] \<Rightarrow> [] | c # t \<Rightarrow> if c = 46 then dropWhile is_digit t else r1)
      in if ip = [] \<and> fp = [] then None
         else
           let m = of_nat (digits_value (ip @ fp)) / 10 ^ length fp
           in case r2 of
                [] \<Rightarrow> Some m
              | e # t \<Rightarrow> if e = 101 \<or> e = 69 then scale_by_exponent m t else None)"

definition signed_decimal :: "bool \<Rightarrow> jsstring \<Rightarrow> jsnum" where
  "signed_decimal negative s =
     (if s = ascii ''Infinity'' then (if negative then NegInf else PosInf)
      else case unsigned_decimal s of
             None \<Rightarrow> NaN
           | Some m \<Rightarrow> Fin (if negative then - m else m))"

definition StringToNumber :: "jsstring \<Rightarrow> jsnum" where
  "StringToNumber s =
     (let t = trim s
      in case t of
           [] \<Rightarrow> Fin 0
         | c # cs \<Rightarrow>
             if c = 48 \<and> cs \<noteq> [] \<and> (hd cs = 120 \<or> hd cs = 88) then integer_literal 16 (tl cs)
             else if c = 48 \<and> cs \<noteq> [] \<and> (hd cs = 111 \<or> hd cs = 79) then integer_literal 8 (tl cs)
             else if c = 48 \<and> cs \<noteq> [] \<and> (hd cs = 98 \<or> hd cs = 66) then integer_literal 2 (tl cs)
             else if c = 45 then signed_decimal True cs
             else if c = 43 then signed_decimal False cs
             else signed_decimal False t)"

subsection \<open>What the browser supplies\<close>

text \<open>
  Four functions of the runtime are taken as parameters of the model: the conversion of
  a number to a string (\<open>String(n)\<close>), \<open>String.prototype.toLowerCase\<close>, the collation
  of \<open>localeCompare\<close> and the parsing of a date.  \<open>sa.localeCompare(sb)\<close> is a
  consistent comparison of strings; it is given by a collation key, the comparison being
  that of the keys.  \<open>dateToISO s\<close> is \<open>None\<close> where \<open>new Date(s)\<close> is an invalid date
  and otherwise \<open>toISOString().slice(0, 10)\<close> of it.
\<close>

record runtime =
  numberToString :: "jsnum \<Rightarrow> jsstring"
  toLowerCase :: "jsstring \<Rightarrow> jsstring"
  collationKey :: "jsstring \<Rightarrow> rat"
  dateToISO :: "jsstring \<Rightarrow> jsstring option"

text \<open>\<open>String(v)\<close>\<close>

fun String_of :: "runtime \<Rightarrow> jsval \<Rightarrow> jsstring" where
  "String_of rt JUndefined = ascii ''undefined''"
| "String_of rt JNull = ascii ''null''"
| "String_of rt (JBool b) = (if b then ascii ''true'' else ascii ''false'')"
| "String_of rt (JNum n) = numberToString rt n"
| "String_of rt (JStr s) = s"

text \<open>\<open>sa.localeCompare(sb)\<close>: negative, zero or positive.\<close>

definition localeCompare :: "runtime \<Rightarrow> jsstring \<Rightarrow> jsstring \<Rightarrow> jsnum" where
  "localeCompare rt sa sb = Fin (sgn (collationKey rt sa - collationKey rt sb))"

text \<open>
  A runtime to evaluate the model on concrete inputs.  It lowers the letters A to Z and
  leaves every other code unit, writes integers in decimal, orders strings by their code
  units and parses no date; it is the browser's on ASCII text without dates and on
  integers below \<open>10^21\<close>.
\<close>

definition lower_unit :: "nat \<Rightarrow> nat" where
  "lower_unit c = (if 65 \<le> c \<and> c \<le> 90 then c + 32 else c)"

fun decimal_digits :: "nat \<Rightarrow> jsstring" where
  "decimal_digits n = (if n < 10 then [48 + n] else decimal_digits (n div 10) @ [48 + n mod 10])"

declare decimal_digits.simps [simp del]

definition integer_string :: "int \<Rightarrow> jsstring" where
  "integer_string i = (if i < 0 then 45 # decimal_digits (nat (- i)) else decimal_digits (nat i))"

fun unit_key :: "jsstring \<Rightarrow> rat" where
  "unit_key [] = 0"
| "unit_key (c # cs) = (of_nat c + 1 + unit_key cs) / 65537"

definition plain_runtime :: runtime where
  "plain_runtime =
     \<lparr>numberToString = (\<lambda>n. case n of
          Fin r \<Rightarrow> integer_string \<lfloor>r\<rfloor>
        | NaN \<Rightarrow> ascii ''NaN''
        | PosInf \<Rightarrow> ascii ''Infinity''
        | NegInf \<Rightarrow> ascii ''-Infinity''),
      toLowerCase = map lower_unit,
      collationKey = unit_key,
      dateToISO = (\<lambda>s. None)\<rparr>"

section \<open>Numeric coercion: the three \<open>toNumberSafe\<close>\<close>

text \<open>\<open>Number.isFinite(n) ? n : 0\<close>\<close>

definition finite_or_zero :: "jsnum \<Rightarrow> jsnum" where
  "finite_or_zero n = (if isFinite n then n else Fin 0)"

text \<open>
  \<open>toNumberSafe\<close> of \<open>src/pages/TablesPage.tsx\<close>.  \<open>String(v).replace(/,/g, "")\<close>
  removes the commas; \<open>String(v)\<close> is reached by a non-empty string and by a boolean.
\<close>

definition strip_commas :: "jsstring \<Rightarrow> jsstring" where
  "strip_commas s = filter (\<lambda>c. c \<noteq> 44) s"

fun toNumberSafe :: "jsval \<Rightarrow> jsnum" where
  "toNumberSafe JNull = Fin 0"
| "toNumberSafe JUndefined = Fin 0"
| "toNumberSafe (JStr s) =
     (if s = [] then Fin 0 else finite_or_zero (StringToNumber (strip_commas s)))"
| "toNumberSafe (JNum n) = (if isFinite n then n else Fin 0)"
| "toNumberSafe (JBool b) =
     finite_or_zero (StringToNumber (strip_commas (if b then ascii ''true'' else ascii ''false'')))"

text \<open>
  \<open>toNumberSafe\<close> of the dashboard (\<open>src/unnamed/part_002\<close>).
  \<open>s.replace(/[U+20B9,\s]/g, "")\<close> removes the rupee sign (U+20B9), the commas and the
  white space.
\<close>

definition rupee :: nat where
  "rupee = 8377"

definition strip_rupee_commas_spaces :: "jsstring \<Rightarrow> jsstring" where
  "strip_rupee_commas_spaces s = filter (\<lambda>c. \<not> (c = rupee \<or> c = 44 \<or> is_space c)) s"

fun toNumberSafe_dashboard :: "jsval \<Rightarrow> jsnum" where
  "toNumberSafe_dashboard JNull = Fin 0"
| "toNumberSafe_dashboard JUndefined = Fin 0"
| "toNumberSafe_dashboard (JStr s) =
     (if s = [] then Fin 0 else finite_or_zero (StringToNumber (strip_rupee_commas_spaces s)))"
| "toNumberSafe_dashboard (JNum n) = (if isFinite n then n else Fin 0)"
| "toNumberSafe_dashboard (JBool b) =
     finite_or_zero
       (StringToNumber (strip_rupee_commas_spaces (if b then ascii ''true'' else ascii ''false'')))"

text \<open>
  \<open>toNumberSafe\<close> of the analytics page (\<open>src/unnamed/part_001\<close>): \<open>if (!v) return 0\<close>,
  then the same replacement on \<open>String(v)\<close>, for a number as well.
\<close>

fun falsy :: "jsval \<Rightarrow> bool" where
  "falsy JUndefined = True"
| "falsy JNull = True"
| "falsy (JBool b) = (\<not> b)"
| "falsy (JNum n) = (n = NaN \<or> n = Fin 0)"
| "falsy (JStr s) = (s = [])"

definition toNumberSafe_analytics :: "runtime \<Rightarrow> jsval \<Rightarrow> jsnum" where
  "toNumberSafe_analytics rt v =
     (if falsy v then Fin 0
      else finite_or_zero (StringToNumber (strip_rupee_commas_spaces (String_of rt v))))"

section \<open>The table editor: \<open>src/pages/TablesPage.tsx\<close>\<close>

text \<open>
  The records of the store.  \<open>row_data\<close> is a JSON object or \<open>null\<close>: the list of its
  properties in their order, or \<open>None\<close>.  The name and the type of a column are strings
  (\<open>text NOT NULL\<close> in the schema), the type being any string.
\<close>

type_synonym row_data = "(jsstring \<times> jsval) list"

record DbTable =
  t_id :: jsstring
  t_user_id :: jsstring
  t_name :: jsstring
  t_created_at :: jsstring

record DbColumn =
  c_id :: jsstring
  c_table_id :: jsstring
  c_name :: jsstring
  c_type :: jsstring
  c_created_at :: jsstring

record DbRow =
  r_id :: jsstring
  r_table_id :: jsstring
  r_row_data :: "row_data option"
  r_created_at :: jsstring

text \<open>\<open>(r.row_data ?? {})\<close>, and \<open>rd[k]\<close>, which is \<open>undefined\<close> for a missing key.\<close>

definition rd_of :: "DbRow \<Rightarrow> row_data" where
  "rd_of r = (case r_row_data r of None \<Rightarrow> [] | Some rd \<Rightarrow> rd)"

definition get :: "row_data \<Rightarrow> jsstring \<Rightarrow> jsval" where
  "get rd k = (case map_of rd k of None \<Rightarrow> JUndefined | Some v \<Rightarrow> v)"

text \<open>\<open>v ?? ""\<close>\<close>

definition or_empty :: "jsval \<Rightarrow> jsval" where
  "or_empty v = (if v = JNull \<or> v = JUndefined then JStr [] else v)"

text \<open>\<open>type === "number" || type === "currency"\<close>\<close>

definition number_or_currency :: "jsstring \<Rightarrow> bool" where
  "number_or_currency t \<longleftrightarrow> t = ascii ''number'' \<or> t = ascii ''currency''"

datatype direction = Asc | Desc

text \<open>The state of the page that the view and the totals read.\<close>

record page =
  tables :: "DbTable list"
  selectedTable :: "DbTable option"
  columns :: "DbColumn list"
  rows :: "DbRow list"
  newColumnName :: jsstring
  newColumnType :: jsstring
  searchQuery :: jsstring
  sortColumnName :: "jsstring option"
  sortDirection :: direction
  editingColumnId :: "jsstring option"
  editingColumnName :: jsstring
  editingColumnType :: jsstring
  isColumnDialogOpen :: bool

subsection \<open>Column totals\<close>




subsection \<open>Search and sort\<close>

text \<open>
  \<open>Array.prototype.sort\<close> with a comparator is stable; a positive result of
  \<open>cmp(a, b)\<close> puts \<open>b\<close> first, and \<open>NaN\<close> counts as zero.  It is modelled by the
  stable insertion sort, which is the sorted order that a consistent comparator fixes.
\<close>

fun positive :: "jsnum \<Rightarrow> bool" where
  "positive (Fin r) = (0 < r)"
| "positive PosInf = True"
| "positive n = False"

fun insert_sorted :: "('a \<Rightarrow> 'a \<Rightarrow> jsnum) \<Rightarrow> 'a \<Rightarrow> 'a list \<Rightarrow> 'a list" where
  "insert_sorted cmp x [] = [x]"
| "insert_sorted cmp x (y # ys) =
     (if positive (cmp x y) then y # insert_sorted cmp x ys else x # y # ys)"

definition js_sort :: "('a \<Rightarrow> 'a \<Rightarrow> jsnum) \<Rightarrow> 'a list \<Rightarrow> 'a list" where
  "js_sort cmp xs = foldr (insert_sorted cmp) xs []"

text \<open>The predicate of the filter, on the lowered query \<open>q\<close>.\<close>

definition row_matches :: "runtime \<Rightarrow> jsstring \<Rightarrow> DbRow \<Rightarrow> bool" where
  "row_matches rt q r =
     list_ex (\<lambda>v. includes_js (toLowerCase rt (String_of rt (or_empty v))) q) (map snd (rd_of r))"

text \<open>The comparator of the sort.\<close>

definition compare_rows ::
  "runtime \<Rightarrow> jsstring \<Rightarrow> jsstring \<Rightarrow> direction \<Rightarrow> DbRow \<Rightarrow> DbRow \<Rightarrow> jsnum" where
  "compare_rows rt type sortCol dir a b =
     (let aVal = or_empty (get (rd_of a) sortCol);
          bVal = or_empty (get (rd_of b) sortCol)
      in if number_or_currency type then
           let na = toNumberSafe aVal; nb = toNumberSafe bVal
           in if dir = Asc then num_sub na nb else num_sub nb na
         else
           let sa = String_of rt aVal; sb = String_of rt bVal
           in if dir = Asc then localeCompare rt sa sb else localeCompare rt sb sa)"

definition filtered_rows :: "runtime \<Rightarrow> DbRow list \<Rightarrow> jsstring \<Rightarrow> DbRow list" where
  "filtered_rows rt rs query =
     (if trim query \<noteq> [] then filter (row_matches rt (toLowerCase rt query)) rs else rs)"

definition sort_type :: "DbColumn list \<Rightarrow> jsstring \<Rightarrow> jsstring" where
  "sort_type cs sortCol =
     (case find (\<lambda>c. c_name c = sortCol) cs of None \<Rightarrow> ascii ''text'' | Some c \<Rightarrow> c_type c)"

definition filteredAndSortedRows ::
  "runtime \<Rightarrow> DbRow list \<Rightarrow> DbColumn list \<Rightarrow> jsstring \<Rightarrow> jsstring option \<Rightarrow> direction
     \<Rightarrow> DbRow list" where
  "filteredAndSortedRows rt rs cs query sortCol dir =
     (let list = filtered_rows rt rs query
      in case sortCol of
           None \<Rightarrow> list
         | Some sc \<Rightarrow>
             if sc = [] then list
             else js_sort (compare_rows rt (sort_type cs sc) sc dir) list)"

definition view_of :: "runtime \<Rightarrow> page \<Rightarrow> DbRow list" where
  "view_of rt p =
     filteredAndSortedRows rt (rows p) (columns p) (searchQuery p) (sortColumnName p)
       (sortDirection p)"

text \<open>\<open>handleSort(colName)\<close>\<close>

definition handleSort :: "jsstring \<Rightarrow> page \<Rightarrow> page" where
  "handleSort colName p =
     (if sortColumnName p = Some colName
      then p\<lparr>sortDirection := (if sortDirection p = Asc then Desc else Asc)\<rparr>
      else p\<lparr>sortColumnName := Some colName, sortDirection := Asc\<rparr>)"

text \<open>
  The key that the comparator of the sort compares: the coerced number of the cell for
  a column of type number or currency, the collation key of its string otherwise.
\<close>

definition row_key :: "runtime \<Rightarrow> jsstring \<Rightarrow> jsstring \<Rightarrow> DbRow \<Rightarrow> rat" where
  "row_key rt type sortCol r =
     (if number_or_currency type then num_val (toNumberSafe (or_empty (get (rd_of r) sortCol)))
      else collationKey rt (String_of rt (or_empty (get (rd_of r) sortCol))))"

section \<open>Cross-table analytics\<close>

subsection \<open>The dashboard: \<open>src/unnamed/part_002\<close>\<close>

text \<open>
  \<open>amountNameRegex\<close> and \<open>expenseNameRegex\<close> are alternations of lower-case words
  with the flag \<open>i\<close>; \<open>regex.test(name)\<close> holds when one of the words occurs in the
  name, the letters A to Z of the name counting as a to z.
\<close>

definition amount_words :: "jsstring list" where
  "amount_words =
     map ascii [''amount'', ''revenue'', ''income'', ''sale'', ''sales'', ''price'', ''paid'',
                ''payment'', ''total'', ''subtotal'']"

definition expense_words :: "jsstring list" where
  "expense_words =
     map ascii [''expense'', ''cost'', ''spent'', ''purchase'', ''fee'', ''charges'', ''rent'',
                ''salary'', ''tax'', ''gst'', ''vat'']"

definition regex_test :: "jsstring list \<Rightarrow> jsstring \<Rightarrow> bool" where
  "regex_test words s = list_ex (\<lambda>w. includes_js (map lower_unit s) w) words"

text \<open>A word that is not empty and neither begins nor ends with white space.\<close>

definition plain_word :: "jsstring \<Rightarrow> bool" where
  "plain_word w \<longleftrightarrow> w \<noteq> [] \<and> \<not> is_space (hd w) \<and> \<not> is_space (last w)"

datatype bucket = Revenue | Expense

text \<open>
  The body of \<open>colsData.forEach\<close>: the entry pushed for a column, \<open>None\<close> where the
  callback returns early.  The name of a column is a string, so that
  \<open>String(c.name || "")\<close> is the name.
\<close>

definition dashboard_entry :: "DbColumn \<Rightarrow> (jsstring \<times> bucket) option" where
  "dashboard_entry c =
     (let typeOk = (c_type c = ascii ''number'' \<or> c_type c = ascii ''currency'')
      in if \<not> typeOk then None
         else
           let colName = trim (c_name c)
           in if colName = [] then None
              else
                let looksRelevant =
                      (regex_test amount_words colName \<or> regex_test expense_words colName)
                in if \<not> looksRelevant then None
                   else Some (colName,
                              if regex_test expense_words colName then Expense else Revenue))"

text \<open>\<open>colsByTable.get(tid) ?? []\<close> after the loop over \<open>colsData\<close>.\<close>

definition colsByTable :: "DbColumn list \<Rightarrow> jsstring \<Rightarrow> (jsstring \<times> bucket) list" where
  "colsByTable colsData tid =
     List.map_filter dashboard_entry (filter (\<lambda>c. c_table_id c = tid) colsData)"

text \<open>
  The body of \<open>rowsData.forEach\<close> on the pair \<open>(tblRev, tblExp)\<close>; the maps by day and
  by table are updated in the same branches and are left out.
\<close>

definition add_cell :: "DbRow \<Rightarrow> jsnum \<times> jsnum \<Rightarrow> jsstring \<times> bucket \<Rightarrow> jsnum \<times> jsnum" where
  "add_cell r acc col =
     (let raw = get (rd_of r) (fst col);
          num = toNumberSafe_dashboard raw
      in if \<not> isFinite num then acc
         else if snd col = Revenue then (num_add (fst acc) num, snd acc)
         else (fst acc, num_add (snd acc) num))"

definition add_row :: "DbColumn list \<Rightarrow> jsnum \<times> jsnum \<Rightarrow> DbRow \<Rightarrow> jsnum \<times> jsnum" where
  "add_row colsData acc r =
     (let cols = colsByTable colsData (r_table_id r)
      in if length cols = 0 then acc else foldl (add_cell r) acc cols)"

definition table_money :: "DbColumn list \<Rightarrow> DbRow list \<Rightarrow> jsnum \<times> jsnum" where
  "table_money colsData rowsData = foldl (add_row colsData) (Fin 0, Fin 0) rowsData"

subsection \<open>The analytics page: \<open>src/unnamed/part_001\<close>\<close>

text \<open>
  \<open>moneySummary\<close> over the columns of type currency: a name that includes "total" is
  skipped, a name that includes "expense" or "cost" is an expense, any other is revenue.
\<close>

definition currencyCols :: "DbColumn list \<Rightarrow> DbColumn list" where
  "currencyCols cs = filter (\<lambda>c. c_type c = ascii ''currency'') cs"

definition summary_cell :: "runtime \<Rightarrow> DbRow \<Rightarrow> jsnum \<times> jsnum \<Rightarrow> DbColumn \<Rightarrow> jsnum \<times> jsnum" where
  "summary_cell rt r acc c =
     (let name = toLowerCase rt (c_name c);
          v = toNumberSafe_analytics rt (get (rd_of r) (c_name c))
      in if includes_js name (ascii ''total'') then acc
         else if includes_js name (ascii ''expense'') \<or> includes_js name (ascii ''cost'')
         then (fst acc, num_add (snd acc) v)
         else (num_add (fst acc) v, snd acc))"

definition moneySummary :: "runtime \<Rightarrow> DbColumn list \<Rightarrow> DbRow list \<Rightarrow> jsnum \<times> jsnum \<times> jsnum" where
  "moneySummary rt cs rs =
     (let acc = foldl (\<lambda>acc r. foldl (summary_cell rt r) acc
                          (filter (\<lambda>c. c_table_id c = r_table_id r) (currencyCols cs)))
                  (Fin 0, Fin 0) rs
      in (fst acc, snd acc, num_sub (fst acc) (snd acc)))"

subsection \<open>The classification, as the claim words it\<close>

text \<open>
  A column contributes to the expense bucket when its type is number or currency and its
  name matches the expense pattern, and to the revenue bucket when its type is number or
  currency and its name matches the amount pattern and not the expense pattern.
\<close>

definition contributes :: "DbColumn \<Rightarrow> bucket \<Rightarrow> bool" where
  "contributes c b \<longleftrightarrow>
     number_or_currency (c_type c) \<and>
     (if b = Expense then regex_test expense_words (c_name c)
      else regex_test amount_words (c_name c) \<and> \<not> regex_test expense_words (c_name c))"

text \<open>The sum, over the rows, of the cells of the columns of the row's table in a bucket.\<close>

definition bucket_sum :: "DbColumn list \<Rightarrow> DbRow list \<Rightarrow> bucket \<Rightarrow> rat" where
  "bucket_sum cs rs b =
     sum_list (map (\<lambda>r.
        sum_list (map (\<lambda>c. num_val (toNumberSafe_dashboard (get (rd_of r) (trim (c_name c)))))
                    (filter (\<lambda>c. c_table_id c = r_table_id r \<and> contributes c b) cs)))
       rs)"

subsection \<open>The rule of the analytics page\<close>

text \<open>
  The bucket of a column in \<open>moneySummary\<close>: none unless the type is currency, none for
  a lowered name that includes "total", expense for one that includes "expense" or
  "cost", revenue for any other.
\<close>

definition analytics_bucket :: "runtime \<Rightarrow> DbColumn \<Rightarrow> bucket option" where
  "analytics_bucket rt c =
     (if c_type c \<noteq> ascii ''currency'' then None
      else if includes_js (toLowerCase rt (c_name c)) (ascii ''total'') then None
      else if includes_js (toLowerCase rt (c_name c)) (ascii ''expense'') \<or>
              includes_js (toLowerCase rt (c_name c)) (ascii ''cost'')
      then Some Expense
      else Some Revenue)"

definition analytics_sum :: "runtime \<Rightarrow> DbColumn list \<Rightarrow> DbRow list \<Rightarrow> bucket \<Rightarrow> rat" where
  "analytics_sum rt cs rs b =
     sum_list (map (\<lambda>r.
        sum_list (map (\<lambda>c. num_val (toNumberSafe_analytics rt (get (rd_of r) (c_name c))))
                    (filter (\<lambda>c. c_table_id c = r_table_id r \<and> analytics_bucket rt c = Some b) cs)))
       rs)"

section \<open>The persistence service and the handlers of the table editor\<close>

text \<open>
  The store holds the three tables \<open>user_tables\<close>, \<open>user_columns\<close> and \<open>user_rows\<close>,
  each in the order of \<open>created_at\<close>.  A call of the client either fails with the
  message of its error or is applied; which calls fail, and the identifier and the time
  that the store gives to an inserted record, are the \<open>backend\<close> of a run.
\<close>

record database =
  db_tables :: "DbTable list"
  db_columns :: "DbColumn list"
  db_rows :: "DbRow list"

datatype db_call =
    DeleteRows jsstring
  | DeleteColumns jsstring
  | DeleteTable jsstring
  | InsertColumn jsstring jsstring jsstring
  | UpdateRowData jsstring row_data
  | UpdateColumn jsstring jsstring jsstring
  | SelectTables jsstring
  | SelectColumns jsstring
  | SelectRows jsstring

record backend =
  failure :: "db_call \<Rightarrow> jsstring option"
  new_id :: jsstring
  now :: jsstring

text \<open>
  What a call that succeeds does to the store: \<open>delete().eq("table_id", t)\<close> on the rows
  and on the columns, \<open>delete().eq("id", t)\<close> on the tables (the schema cascades it to
  the columns and rows of the table), \<open>insert\<close> of a column, \<open>update({ row_data })\<close> of
  the row with an id, \<open>update({ name, type })\<close> of the column with an id.
\<close>

fun apply_call :: "backend \<Rightarrow> db_call \<Rightarrow> database \<Rightarrow> database" where
  "apply_call b (DeleteRows t) d = d\<lparr>db_rows := filter (\<lambda>r. r_table_id r \<noteq> t) (db_rows d)\<rparr>"
| "apply_call b (DeleteColumns t) d =
     d\<lparr>db_columns := filter (\<lambda>c. c_table_id c \<noteq> t) (db_columns d)\<rparr>"
| "apply_call b (DeleteTable t) d =
     d\<lparr>db_tables := filter (\<lambda>x. t_id x \<noteq> t) (db_tables d),
       db_columns := filter (\<lambda>c. c_table_id c \<noteq> t) (db_columns d),
       db_rows := filter (\<lambda>r. r_table_id r \<noteq> t) (db_rows d)\<rparr>"
| "apply_call b (InsertColumn t n ty) d =
     d\<lparr>db_columns := db_columns d @
          [\<lparr>c_id = new_id b, c_table_id = t, c_name = n, c_type = ty, c_created_at = now b\<rparr>]\<rparr>"
| "apply_call b (UpdateRowData i rd) d =
     d\<lparr>db_rows := map (\<lambda>r. if r_id r = i then r\<lparr>r_row_data := Some rd\<rparr> else r) (db_rows d)\<rparr>"
| "apply_call b (UpdateColumn i n ty) d =
     d\<lparr>db_columns :=
          map (\<lambda>c. if c_id c = i then c\<lparr>c_name := n, c_type := ty\<rparr> else c) (db_columns d)\<rparr>"
| "apply_call b (SelectTables u) d = d"
| "apply_call b (SelectColumns t) d = d"
| "apply_call b (SelectRows t) d = d"

datatype toast = ToastError jsstring | ToastSuccess jsstring

text \<open>The store, the state of the page, the toasts shown and the calls made, in order.\<close>

record world =
  db :: database
  ui :: page
  toasts :: "toast list"
  calls :: "db_call list"

text \<open>\<open>await supabase.from(...)...\<close>: the \<open>error\<close> of the answer, and the world after it.\<close>

definition request :: "backend \<Rightarrow> db_call \<Rightarrow> world \<Rightarrow> jsstring option \<times> world" where
  "request b c w =
     (case failure b c of
        Some msg \<Rightarrow> (Some msg, w\<lparr>calls := calls w @ [c]\<rparr>)
      | None \<Rightarrow> (None, w\<lparr>db := apply_call b c (db w), calls := calls w @ [c]\<rparr>))"

definition toast_error :: "jsstring \<Rightarrow> world \<Rightarrow> world" where
  "toast_error msg w = w\<lparr>toasts := toasts w @ [ToastError msg]\<rparr>"

definition toast_success :: "jsstring \<Rightarrow> world \<Rightarrow> world" where
  "toast_success msg w = w\<lparr>toasts := toasts w @ [ToastSuccess msg]\<rparr>"

text \<open>
  \<open>loadTables\<close>.  \<open>userId\<close> is \<open>profile?.id\<close>; \<open>sel\<close> is the \<open>selectedTable\<close> of the
  render whose closure runs.
\<close>

definition loadTables :: "backend \<Rightarrow> jsstring option \<Rightarrow> DbTable option \<Rightarrow> world \<Rightarrow> world" where
  "loadTables b userId sel w =
     (case userId of
        None \<Rightarrow> w
      | Some uid \<Rightarrow>
          (case request b (SelectTables uid) w of
             (Some msg, w1) \<Rightarrow> toast_error msg w1
           | (None, w1) \<Rightarrow>
               let list = filter (\<lambda>t. t_user_id t = uid) (db_tables (db w1));
                   w2 = w1\<lparr>ui := (ui w1)\<lparr>tables := list\<rparr>\<rparr>
               in case sel of
                    Some s \<Rightarrow>
                      if list_ex (\<lambda>t. t_id t = t_id s) list then w2
                      else w2\<lparr>ui := (ui w2)\<lparr>selectedTable :=
                                 (case list of [] \<Rightarrow> None | t # ts \<Rightarrow> Some t)\<rparr>\<rparr>
                  | None \<Rightarrow>
                      if length list > 0
                      then w2\<lparr>ui := (ui w2)\<lparr>selectedTable := Some (hd list)\<rparr>\<rparr>
                      else w2))"


subsection \<open>\<open>handleDeleteTable\<close>\<close>

text \<open>The \<open>catch\<close>: \<open>toast.error(e?.message || "Table delete failed")\<close>.\<close>

definition delete_failed :: "jsstring \<Rightarrow> world \<Rightarrow> world" where
  "delete_failed msg w = toast_error (if msg = [] then ascii ''Table delete failed'' else msg) w"

definition handleDeleteTable :: "backend \<Rightarrow> jsstring option \<Rightarrow> jsstring \<Rightarrow> world \<Rightarrow> world" where
  "handleDeleteTable b userId tableId w =
     (case request b (DeleteRows tableId) w of
        (Some msg, w1) \<Rightarrow> delete_failed msg w1
      | (None, w1) \<Rightarrow>
          (case request b (DeleteColumns tableId) w1 of
             (Some msg, w2) \<Rightarrow> delete_failed msg w2
           | (None, w2) \<Rightarrow>
               (case request b (DeleteTable tableId) w2 of
                  (Some msg, w3) \<Rightarrow> delete_failed msg w3
                | (None, w3) \<Rightarrow>
                    let w4 = toast_success (ascii ''Table deleted'') w3;
                        w5 = (if (case selectedTable (ui w) of
                                    None \<Rightarrow> False
                                  | Some s \<Rightarrow> t_id s = tableId)
                              then w4\<lparr>ui := (ui w4)\<lparr>selectedTable := None, columns := [],
                                                     rows := []\<rparr>\<rparr>
                              else w4)
                    in loadTables b userId (selectedTable (ui w)) w5)))"

subsection \<open>\<open>handleAddColumn\<close> and \<open>handleColumnUpdate\<close>\<close>

text \<open>
  \<open>await Promise.all(rows.map((r) => ...))\<close>: the callback computes from
  \<open>rd = r.row_data ?? {}\<close> either nothing to send (\<open>Promise.resolve()\<close>) or the updated
  \<open>row_data\<close>, which it sends for the row's id.  The answers of these calls are not
  looked at.
\<close>

definition update_each_row ::
  "backend \<Rightarrow> (row_data \<Rightarrow> row_data option) \<Rightarrow> DbRow list \<Rightarrow> world \<Rightarrow> world" where
  "update_each_row b f rs w =
     foldl (\<lambda>w r. case f (rd_of r) of
                     None \<Rightarrow> w
                   | Some updated \<Rightarrow> snd (request b (UpdateRowData (r_id r) updated) w))
       w rs"






subsection \<open>The page and the store agree\<close>




definition row_updated :: "(row_data \<Rightarrow> row_data option) \<Rightarrow> jsstring \<Rightarrow> DbRow \<Rightarrow> DbRow" where
  "row_updated f tid r =
     (if r_table_id r = tid
      then (case f (rd_of r) of None \<Rightarrow> r | Some x \<Rightarrow> r\<lparr>r_row_data := Some x\<rparr>)
      else r)"

text \<open>The calls that delete.\<close>

fun is_delete :: "db_call \<Rightarrow> bool" where
  "is_delete (DeleteRows t) = True"
| "is_delete (DeleteColumns t) = True"
| "is_delete (DeleteTable t) = True"
| "is_delete c = False"

text \<open>A backend where no call fails.\<close>

definition reliable :: backend where
  "reliable = \<lparr>failure = (\<lambda>c. None), new_id = ascii ''c9'', now = ascii ''2026-01-02T09:00:00Z''\<rparr>"

text \<open>A backend where the deletion of the columns of the table \<open>t1\<close> is refused.\<close>

definition columns_refused :: backend where
  "columns_refused =
     \<lparr>failure = (\<lambda>c. if c = DeleteColumns (ascii ''t1'') then Some (ascii ''permission denied'')
                       else None),
      new_id = ascii ''c9'', now = ascii ''2026-01-02T09:00:00Z''\<rparr>"

section \<open>A table to evaluate the model on\<close>

text \<open>
  The table "Sales" with the columns \<open>Amount\<close> (currency) and \<open>Item\<close> (text) and the
  rows (Pen, 100), (Book, 250.50) and (Pencil, 100).
\<close>

definition sales_table :: DbTable where
  "sales_table =
     \<lparr>t_id = ascii ''t1'', t_user_id = ascii ''u1'', t_name = ascii ''Sales'',
      t_created_at = ascii ''2026-01-01T10:00:00Z''\<rparr>"

definition amount_column :: DbColumn where
  "amount_column =
     \<lparr>c_id = ascii ''c1'', c_table_id = ascii ''t1'', c_name = ascii ''Amount'',
      c_type = ascii ''currency'', c_created_at = ascii ''2026-01-01T10:01:00Z''\<rparr>"

definition item_column :: DbColumn where
  "item_column =
     \<lparr>c_id = ascii ''c2'', c_table_id = ascii ''t1'', c_name = ascii ''Item'',
      c_type = ascii ''text'', c_created_at = ascii ''2026-01-01T10:02:00Z''\<rparr>"

definition pen_row :: DbRow where
  "pen_row =
     \<lparr>r_id = ascii ''r1'', r_table_id = ascii ''t1'',
      r_row_data = Some [(ascii ''Item'', JStr (ascii ''Pen'')),
                         (ascii ''Amount'', JStr (ascii ''100''))],
      r_created_at = ascii ''2026-01-01T10:03:00Z''\<rparr>"

definition book_row :: DbRow where
  "book_row =
     \<lparr>r_id = ascii ''r2'', r_table_id = ascii ''t1'',
      r_row_data = Some [(ascii ''Item'', JStr (ascii ''Book'')),
                         (ascii ''Amount'', JStr (ascii ''250.50''))],
      r_created_at = ascii ''2026-01-01T10:04:00Z''\<rparr>"

definition pencil_row :: DbRow where
  "pencil_row =
     \<lparr>r_id = ascii ''r3'', r_table_id = ascii ''t1'',
      r_row_data = Some [(ascii ''Item'', JStr (ascii ''Pencil'')),
                         (ascii ''Amount'', JStr (ascii ''100''))],
      r_created_at = ascii ''2026-01-01T10:05:00Z''\<rparr>"

definition sales_page :: page where
  "sales_page =
     \<lparr>tables = [sales_table], selectedTable = Some sales_table,
      columns = [amount_column, item_column], rows = [pen_row, book_row],
      newColumnName = [], newColumnType = ascii ''text'', searchQuery = [],
      sortColumnName = None, sortDirection = Asc, editingColumnId = None,
      editingColumnName = [], editingColumnType = ascii ''text'', isColumnDialogOpen = False\<rparr>"

text \<open>A currency column "Balance" of the table, and a row with the balance 5.\<close>

definition balance_column :: DbColumn where
  "balance_column =
     \<lparr>c_id = ascii ''c3'', c_table_id = ascii ''t1'', c_name = ascii ''Balance'',
      c_type = ascii ''currency'', c_created_at = ascii ''2026-01-01T10:06:00Z''\<rparr>"

definition balance_row :: DbRow where
  "balance_row =
     \<lparr>r_id = ascii ''r4'', r_table_id = ascii ''t1'',
      r_row_data = Some [(ascii ''Balance'', JStr (ascii ''5''))],
      r_created_at = ascii ''2026-01-01T10:07:00Z''\<rparr>"

text \<open>The table in the store and on the page, with the row (Pen, 100) and a row whose
  amount is empty.\<close>

definition empty_amount_row :: DbRow where
  "empty_amount_row =
     \<lparr>r_id = ascii ''r5'', r_table_id = ascii ''t1'',
      r_row_data = Some [(ascii ''Item'', JStr (ascii ''Ink'')), (ascii ''Amount'', JStr [])],
      r_created_at = ascii ''2026-01-01T10:08:00Z''\<rparr>"

definition sales_world :: world where
  "sales_world =
     \<lparr>db = \<lparr>db_tables = [sales_table], db_columns = [amount_column, item_column],
             db_rows = [pen_row, empty_amount_row]\<rparr>,
      ui = sales_page\<lparr>rows := [pen_row, empty_amount_row]\<rparr>,
      toasts = [], calls = []\<rparr>"





section \<open>Properties of the document generator\<close>

lemma or0_id [simp]: "or0 x = x"
  by (simp add: or0_def)

lemma foldl_amounts: "foldl (\<lambda>s i. s + amount i) a its = a + sum_list (map amount its)"
  by (induction its arbitrary: a) (simp_all add: add.assoc)

lemma recalcTotals_items [simp]: "items (recalcTotals its p form) = its"
  by (simp add: recalcTotals_def Let_def)

lemma recalcTotals_tax_percent [simp]: "tax_percent (totals (recalcTotals its p form)) = p"
  by (simp add: recalcTotals_def Let_def)

lemma recalcTotals_current: "totals_current (recalcTotals its p form)"
  by (simp add: totals_current_def recalcTotals_def Let_def foldl_amounts)

lemma handle_totals_current:
  assumes "handle e form = Inr form'"
  shows "totals_current form'"
proof (cases e)
  case (EditDescription idx s)
  with assms show ?thesis
    by (auto simp: updateItem_def Let_def recalcTotals_current split: if_splits)
next
  case (EditHsn idx s)
  with assms show ?thesis
    by (auto simp: updateItem_def Let_def recalcTotals_current split: if_splits)
next
  case (EditQty idx n)
  with assms show ?thesis
    by (auto simp: updateItem_def Let_def recalcTotals_current split: if_splits)
next
  case (EditRate idx n)
  with assms show ?thesis
    by (auto simp: updateItem_def Let_def recalcTotals_current split: if_splits)
next
  case AddItem
  with assms show ?thesis by (auto simp: addItem_def recalcTotals_current)
next
  case (RemoveItem idx)
  with assms show ?thesis by (auto simp: removeItem_def Let_def recalcTotals_current)
next
  case (TaxChange n)
  with assms show ?thesis by (auto simp: recalcTotals_current)
qed

lemma list_all_update:
  "list_all P xs \<Longrightarrow> P y \<Longrightarrow> list_all P (xs[i := y])"
  by (induction xs arbitrary: i) (auto split: nat.splits)

lemma list_all_filter_index_neq:
  "list_all P xs \<Longrightarrow> list_all P (filter_index_neq idx xs)"
proof -
  assume a: "list_all P xs"
  have "set (filter_index_neq idx xs) \<subseteq> snd ` set (enumerate 0 xs)"
    by (auto simp: filter_index_neq_def)
  also have "\<dots> \<subseteq> set xs"
    by (auto simp: in_set_enumerate_eq)
  finally show ?thesis using a by (auto simp: list_all_iff)
qed

lemma blank_item_amount: "amount blank_item = qty blank_item * rate blank_item"
  by (simp add: blank_item_def)

lemma handle_amounts_current:
  assumes "handle e form = Inr form'" and "amounts_current form"
  shows "amounts_current form'"
proof (cases e)
  case (EditDescription idx s)
  with assms show ?thesis
    by (auto simp: updateItem_def Let_def amounts_current_def list_all_length nth_list_update
        split: if_splits)
next
  case (EditHsn idx s)
  with assms show ?thesis
    by (auto simp: updateItem_def Let_def amounts_current_def list_all_length nth_list_update
        split: if_splits)
next
  case (EditQty idx n)
  with assms show ?thesis
    by (auto simp: updateItem_def Let_def amounts_current_def list_all_length nth_list_update
        split: if_splits)
next
  case (EditRate idx n)
  with assms show ?thesis
    by (auto simp: updateItem_def Let_def amounts_current_def list_all_length nth_list_update
        split: if_splits)
next
  case AddItem
  with assms show ?thesis
    by (auto simp: addItem_def amounts_current_def blank_item_amount)
next
  case (RemoveItem idx)
  with assms show ?thesis
    by (auto simp: removeItem_def Let_def amounts_current_def blank_item_amount
        list_all_filter_index_neq)
next
  case (TaxChange n)
  with assms show ?thesis by (auto simp: amounts_current_def)
qed

lemma handle_edit_amount:
  assumes "handle e form = Inr form'" and "e = EditQty idx n \<or> e = EditRate idx n"
  shows "idx < length (items form') \<and>
         amount (items form' ! idx) = qty (items form' ! idx) * rate (items form' ! idx)"
  using assms by (auto simp: updateItem_def Let_def split: if_splits)

lemma filter_index_neq_single: "filter_index_neq 0 [x] = []"
  by (simp add: filter_index_neq_def)

lemma handle_items_nonempty:
  assumes "handle e form = Inr form'" and "items form \<noteq> []"
  shows "items form' \<noteq> []"
  using assms
  by (cases e) (auto simp: updateItem_def Let_def addItem_def removeItem_def split: if_splits)

lemma run_items_nonempty: "items form \<noteq> [] \<Longrightarrow> items (run es form) \<noteq> []"
proof (induction es arbitrary: form)
  case Nil
  then show ?case by simp
next
  case (Cons e es)
  show ?case
  proof (cases "handle e form")
    case (Inl err)
    with Cons show ?thesis by simp
  next
    case (Inr form')
    from Inr Cons.prems have "items form' \<noteq> []" by (rule handle_items_nonempty)
    with Cons.IH Inr show ?thesis by simp
  qed
qed

lemma run_totals_current: "totals_current form \<Longrightarrow> totals_current (run es form)"
proof (induction es arbitrary: form)
  case Nil
  then show ?case by simp
next
  case (Cons e es)
  show ?case
  proof (cases "handle e form")
    case (Inl err)
    with Cons show ?thesis by simp
  next
    case (Inr form')
    then have "totals_current form'" by (rule handle_totals_current)
    with Cons.IH Inr show ?thesis by simp
  qed
qed

text \<open>
  Claim C1.  Every event of the form that adds, edits or removes an item or changes the
  tax percent leaves a form whose subtotal is the sum of the item amounts, whose tax
  amount is the subtotal times the tax percent over 100 and whose grand total is the
  subtotal plus the tax amount; an edit of the quantity or of the rate of an item sets
  its amount to quantity times rate, so that amounts that were quantity times rate stay
  so; and the items (2 at 50, 1 at 30) with 10 percent tax give 130, 13 and 143.
\<close>

theorem document_totals:
  "(handle e form = Inr form' \<longrightarrow>
      totals_current form' \<and>
      (amounts_current form \<longrightarrow> amounts_current form') \<and>
      (\<forall>idx n. e = EditQty idx n \<longrightarrow> qty (items form' ! idx) = n \<and>
         amount (items form' ! idx) = n * rate (items form ! idx)) \<and>
      (\<forall>idx n. e = EditRate idx n \<longrightarrow> rate (items form' ! idx) = n \<and>
         amount (items form' ! idx) = qty (items form ! idx) * n) \<and>
      (\<forall>n. e = TaxChange n \<longrightarrow> items form' = items form \<and> tax_percent (totals form') = n)) \<and>
   (totals_current form \<longrightarrow> totals_current (run es form)) \<and>
   (let form5 = run [EditQty 0 2, EditRate 0 50, AddItem, EditRate 1 30, TaxChange 10] initial_form
    in map (\<lambda>it. (qty it, rate it, amount it)) (items form5) = [(2, 50, 100), (1, 30, 30)] \<and>
       tax_percent (totals form5) = 10 \<and> subtotal (totals form5) = 130 \<and>
       tax_amount (totals form5) = 13 \<and> total_f (totals form5) = 143)"
proof (intro conjI impI allI)
  assume h: "handle e form = Inr form'"
  show "totals_current form'" using h by (rule handle_totals_current)
  show "amounts_current form'" if "amounts_current form" using h that by (rule handle_amounts_current)
  show "qty (items form' ! idx) = n" if "e = EditQty idx n" for idx n
    using h that by (auto simp: updateItem_def Let_def split: if_splits)
  show "amount (items form' ! idx) = n * rate (items form ! idx)" if "e = EditQty idx n" for idx n
    using h that by (auto simp: updateItem_def Let_def split: if_splits)
  show "rate (items form' ! idx) = n" if "e = EditRate idx n" for idx n
    using h that by (auto simp: updateItem_def Let_def split: if_splits)
  show "amount (items form' ! idx) = qty (items form ! idx) * n" if "e = EditRate idx n" for idx n
    using h that by (auto simp: updateItem_def Let_def split: if_splits)
  show "items form' = items form" if "e = TaxChange n" for n
    using h that by auto
  show "tax_percent (totals form') = n" if "e = TaxChange n" for n
    using h that by auto
next
  show "totals_current (run es form)" if "totals_current form" using that by (rule run_totals_current)
next
  show "let form5 = run [EditQty 0 2, EditRate 0 50, AddItem, EditRate 1 30, TaxChange 10] initial_form
    in map (\<lambda>it. (qty it, rate it, amount it)) (items form5) = [(2, 50, 100), (1, 30, 30)] \<and>
       tax_percent (totals form5) = 10 \<and> subtotal (totals form5) = 130 \<and>
       tax_amount (totals form5) = 13 \<and> total_f (totals form5) = 143"
    by (simp add: Let_def initial_form_def blank_item_def updateItem_def addItem_def
        recalcTotals_def)
qed

theorem document_totals_witness:
  "handle (EditQty 0 2) initial_form = Inr (recalcTotals [blank_item\<lparr>qty := 2\<rparr>] 0 initial_form) \<and>
   totals_current (recalcTotals [blank_item\<lparr>qty := 2\<rparr>] 0 initial_form) \<and>
   amounts_current initial_form \<and>
   amounts_current (recalcTotals [blank_item\<lparr>qty := 2\<rparr>] 0 initial_form) \<and>
   totals_current initial_form \<and>
   totals_current (run [EditQty 0 2, RemoveItem 0] initial_form)"
proof -
  have h: "handle (EditQty 0 2) initial_form = Inr (recalcTotals [blank_item\<lparr>qty := 2\<rparr>] 0 initial_form)"
    by (simp add: updateItem_def initial_form_def blank_item_def Let_def)
  have a: "amounts_current initial_form"
    by (simp add: amounts_current_def initial_form_def blank_item_def)
  have t: "totals_current initial_form"
    by (simp add: totals_current_def initial_form_def blank_item_def)
  show ?thesis
    using h a t
      document_totals [of "EditQty 0 2" initial_form
        "recalcTotals [blank_item\<lparr>qty := 2\<rparr>] 0 initial_form" "[EditQty 0 2, RemoveItem 0]"]
    by blast
qed

lemma removeItem_items:
  "items (removeItem idx form) \<noteq> [] \<and>
   (length (items form) = 1 \<longrightarrow> items (removeItem 0 form) = [blank_item]) \<and>
   removeItem idx form =
     recalcTotals (items (removeItem idx form)) (tax_percent (totals form)) form \<and>
   totals_current (removeItem idx form)"
proof (intro conjI impI)
  show "items (removeItem idx form) \<noteq> []"
    by (simp add: removeItem_def Let_def)
  show "items (removeItem 0 form) = [blank_item]" if "length (items form) = 1"
  proof -
    from that obtain x where "items form = [x]"
      by (cases "items form") auto
    then show ?thesis by (simp add: removeItem_def Let_def filter_index_neq_single)
  qed
  show "removeItem idx form =
     recalcTotals (items (removeItem idx form)) (tax_percent (totals form)) form"
    by (simp add: removeItem_def Let_def)
  show "totals_current (removeItem idx form)"
    by (simp add: removeItem_def Let_def recalcTotals_current)
qed

lemma openEdit_items:
  "items (openEdit d) = (case d_items d of None \<Rightarrow> [blank_item] | Some its \<Rightarrow> its)"
  by (simp add: openEdit_def)

lemma openEdit_totals:
  "subtotal (totals (openEdit d)) = stored_number (d_totals d) s_subtotal \<and>
   tax_percent (totals (openEdit d)) = stored_number (d_totals d) s_tax_percent \<and>
   tax_amount (totals (openEdit d)) = stored_number (d_totals d) s_tax_amount \<and>
   total_f (totals (openEdit d)) = stored_number (d_totals d) s_total"
  by (simp add: openEdit_def)

text \<open>
  Claim C10.  A removal never leaves the item list empty: removing the only item leaves
  the single blank item (empty description, quantity 1, rate 0, amount 0), the removal
  goes through \<open>recalcTotals\<close> with the list it leaves, and no event of the form empties
  a non-empty list.  Opening a stored document does not keep this: \<open>openEdit\<close> takes
  the stored list whenever there is one, so that the document with the stored list
  \<open>[]\<close> opens with no item, and it takes the stored totals as they are, so that the
  document whose item was edited after its totals were stored opens with totals that
  are not those of its list.
\<close>

theorem openEdit_empty_items:
  "items (openEdit default_doc) = [] \<and>
   \<not> totals_current (openEdit edited_doc) \<and>
   items (openEdit d) = (case d_items d of None \<Rightarrow> [blank_item] | Some its \<Rightarrow> its) \<and>
   subtotal (totals (openEdit d)) = stored_number (d_totals d) s_subtotal \<and>
   tax_amount (totals (openEdit d)) = stored_number (d_totals d) s_tax_amount \<and>
   total_f (totals (openEdit d)) = stored_number (d_totals d) s_total \<and>
   items (removeItem idx form) \<noteq> [] \<and>
   (length (items form) = 1 \<longrightarrow> items (removeItem 0 form) = [blank_item]) \<and>
   blank_item = \<lparr>description = [], hsn = [], qty = 1, rate = 0, amount = 0\<rparr> \<and>
   removeItem idx form =
     recalcTotals (items (removeItem idx form)) (tax_percent (totals form)) form \<and>
   totals_current (removeItem idx form) \<and>
   (items form \<noteq> [] \<longrightarrow> items (run es form) \<noteq> [])"
proof (intro conjI)
  show "items (openEdit default_doc) = []"
    by (simp add: openEdit_items default_doc_def)
  show "\<not> totals_current (openEdit edited_doc)"
    by (simp add: totals_current_def openEdit_def edited_doc_def stored_number_def)
  show "items (openEdit d) = (case d_items d of None \<Rightarrow> [blank_item] | Some its \<Rightarrow> its)"
    by (rule openEdit_items)
  show "subtotal (totals (openEdit d)) = stored_number (d_totals d) s_subtotal"
    "tax_amount (totals (openEdit d)) = stored_number (d_totals d) s_tax_amount"
    "total_f (totals (openEdit d)) = stored_number (d_totals d) s_total"
    using openEdit_totals [of d] by simp_all
  show "items (removeItem idx form) \<noteq> []"
    "length (items form) = 1 \<longrightarrow> items (removeItem 0 form) = [blank_item]"
    "removeItem idx form =
       recalcTotals (items (removeItem idx form)) (tax_percent (totals form)) form"
    "totals_current (removeItem idx form)"
    using removeItem_items [of idx form] by simp_all
  show "blank_item = \<lparr>description = [], hsn = [], qty = 1, rate = 0, amount = 0\<rparr>"
    by (simp add: blank_item_def)
  show "items form \<noteq> [] \<longrightarrow> items (run es form) \<noteq> []"
    by (simp add: run_items_nonempty)
qed

theorem openEdit_empty_items_witness:
  "d_items default_doc = Some [] \<and> items (openEdit default_doc) = [] \<and>
   length (items (openEdit edited_doc)) = 1 \<and>
   items (removeItem 0 (openEdit edited_doc)) = [blank_item] \<and>
   totals_current (removeItem 0 (openEdit edited_doc)) \<and>
   items (openEdit edited_doc) \<noteq> [] \<and>
   items (run [AddItem, RemoveItem 1, RemoveItem 0] (openEdit edited_doc)) \<noteq> []"
proof -
  have l: "length (items (openEdit edited_doc)) = 1"
    by (simp add: openEdit_items edited_doc_def)
  have d: "d_items default_doc = Some []"
    by (simp add: default_doc_def)
  show ?thesis
    using l d
      openEdit_empty_items [of default_doc 0 "openEdit edited_doc"
        "[AddItem, RemoveItem 1, RemoveItem 0]"]
    by auto
qed

section \<open>Properties of the numeric coercion\<close>

lemma finite_or_zero_Fin: "finite_or_zero n = Fin (num_val (finite_or_zero n))"
  by (cases n) (simp_all add: finite_or_zero_def)

lemma toNumberSafe_Fin: "toNumberSafe v = Fin (num_val (toNumberSafe v))"
proof (cases v)
  case (JNum n)
  then show ?thesis by (cases n) simp_all
next
  case (JStr s)
  then show ?thesis using finite_or_zero_Fin [of "StringToNumber (strip_commas s)"] by simp
next
  case (JBool b)
  then show ?thesis
    using finite_or_zero_Fin
      [of "StringToNumber (strip_commas (if b then ascii ''true'' else ascii ''false''))"]
    by simp
qed simp_all

lemma toNumberSafe_dashboard_Fin:
  "toNumberSafe_dashboard v = Fin (num_val (toNumberSafe_dashboard v))"
proof (cases v)
  case (JNum n)
  then show ?thesis by (cases n) simp_all
next
  case (JStr s)
  then show ?thesis
    using finite_or_zero_Fin [of "StringToNumber (strip_rupee_commas_spaces s)"] by simp
next
  case (JBool b)
  then show ?thesis
    using finite_or_zero_Fin
      [of "StringToNumber (strip_rupee_commas_spaces (if b then ascii ''true'' else ascii ''false''))"]
    by simp
qed simp_all

lemma toNumberSafe_postconditions:
  "toNumberSafe JNull = Fin 0" "toNumberSafe JUndefined = Fin 0" "toNumberSafe (JStr []) = Fin 0"
  "toNumberSafe (JNum (Fin r)) = Fin r"
  "\<not> isFinite n \<Longrightarrow> toNumberSafe (JNum n) = Fin 0"
  "isFinite (toNumberSafe v)"
  using toNumberSafe_Fin [of v] by (simp_all, metis isFinite.simps(1))

lemmas number_eval =
  finite_or_zero_def StringToNumber_def strip_commas_def strip_rupee_commas_spaces_def rupee_def
  ascii_def trim_def is_space_def signed_decimal_def unsigned_decimal_def is_digit_def
  digits_value_def scale_by_exponent_def exponent_digits_def integer_literal_def
  digit_in_base_def

text \<open>
  Claim C3.  The coercion of the dashboard removes the rupee sign, the commas and the
  white space before it parses, so that the string of the rupee sign and \<open>1,234\<close> is
  the number 1234; the coercion of the table editor removes the commas only, the rupee
  sign stays, the parse fails and the result is 0.
\<close>

theorem toNumberSafe_rupee_string:
  "toNumberSafe (JStr (rupee # ascii ''1,234'')) = Fin 0 \<and>
   toNumberSafe_dashboard (JStr (rupee # ascii ''1,234'')) = Fin 1234"
  by (simp add: number_eval)

theorem toNumberSafe_rupee_string_witness:
  "toNumberSafe (JStr (8377 # ascii ''1,234'')) = Fin 0"
  using toNumberSafe_rupee_string by (simp add: rupee_def)

section \<open>Properties of the column totals\<close>






lemmas sales_eval =
  sales_table_def amount_column_def item_column_def pen_row_def book_row_def pencil_row_def
  sales_page_def rd_of_def get_def or_empty_def number_or_currency_def


section \<open>Properties of the view\<close>

subsection \<open>The sort\<close>

lemma set_insert_sorted: "mset (insert_sorted cmp x ys) = add_mset x (mset ys)"
  by (induction ys) simp_all

lemma mset_js_sort: "mset (js_sort cmp xs) = mset xs"
  unfolding js_sort_def by (induction xs) (simp_all add: set_insert_sorted)

lemma insert_sorted_key:
  assumes "\<And>a b. positive (cmp a b) \<longleftrightarrow> k b < k a"
  shows "insert_sorted cmp x ys = insort_key k x ys"
  by (induction ys) (auto simp: assms)

lemma js_sort_key:
  assumes "\<And>a b. positive (cmp a b) \<longleftrightarrow> k b < (k a :: rat)"
  shows "js_sort cmp xs = sort_key k xs"
  unfolding js_sort_def sort_key_def
  by (induction xs) (simp_all add: insert_sorted_key [of cmp k, OF assms])

lemma compare_rows_Asc:
  "compare_rows rt ty sc Asc a b = Fin (if number_or_currency ty
      then row_key rt ty sc a - row_key rt ty sc b
      else sgn (row_key rt ty sc a - row_key rt ty sc b))"
proof -
  obtain x where x: "toNumberSafe (or_empty (get (rd_of a) sc)) = Fin x"
    using toNumberSafe_Fin by blast
  obtain y where y: "toNumberSafe (or_empty (get (rd_of b) sc)) = Fin y"
    using toNumberSafe_Fin by blast
  show ?thesis
    by (simp add: compare_rows_def row_key_def Let_def x y num_sub_def localeCompare_def)
qed

lemma compare_rows_Desc:
  "compare_rows rt ty sc Desc a b = compare_rows rt ty sc Asc b a"
  by (simp add: compare_rows_def Let_def)

lemma positive_compare_Asc:
  "positive (compare_rows rt ty sc Asc a b) \<longleftrightarrow> row_key rt ty sc b < row_key rt ty sc a"
  by (simp add: compare_rows_Asc)

lemma positive_compare_Desc:
  "positive (compare_rows rt ty sc Desc a b) \<longleftrightarrow>
   - row_key rt ty sc b < - row_key rt ty sc a"
  by (simp add: compare_rows_Desc compare_rows_Asc)

lemma compare_rows_zero:
  "compare_rows rt ty sc d a b = Fin 0 \<longleftrightarrow> row_key rt ty sc a = row_key rt ty sc b"
  by (cases d) (auto simp: compare_rows_Desc compare_rows_Asc sgn_if)

lemma sort_Asc_key:
  "js_sort (compare_rows rt ty sc Asc) xs = sort_key (row_key rt ty sc) xs"
  by (rule js_sort_key) (rule positive_compare_Asc)

lemma sort_Desc_key:
  "js_sort (compare_rows rt ty sc Desc) xs = sort_key (\<lambda>r. - row_key rt ty sc r) xs"
  by (rule js_sort_key) (rule positive_compare_Desc)

lemma filter_key_distinct:
  assumes "distinct (map k xs)" and "a \<in> set xs"
  shows "filter (\<lambda>x. k a = k x) xs = [a]"
  using assms
proof (induction xs)
  case Nil
  then show ?case by simp
next
  case (Cons x xs)
  show ?case
  proof (cases "x = a")
    case True
    have "filter (\<lambda>x. k a = k x) xs = []"
      using Cons.prems(1) True by (auto simp: filter_empty_conv)
    with True show ?thesis by simp
  next
    case False
    with Cons.prems have "a \<in> set xs" by simp
    moreover from this Cons.prems(1) have "k a \<noteq> k x" by (metis distinct.simps(2) image_eqI list.simps(9) set_map)
    ultimately show ?thesis using Cons by simp
  qed
qed

lemma sorted_neg_rev:
  fixes k :: "'a \<Rightarrow> rat"
  shows "sorted (map k ys) \<Longrightarrow> sorted (map (\<lambda>r. - k r) (rev ys))"
  by (induction ys) (auto simp: sorted_append)

lemma sort_key_neg_rev:
  fixes k :: "'a \<Rightarrow> rat"
  assumes "distinct (map k xs)"
  shows "sort_key (\<lambda>r. - k r) xs = rev (sort_key k xs)"
proof (rule properties_for_sort_key)
  show "mset (rev (sort_key k xs)) = mset xs" by simp
next
  fix a
  assume "a \<in> set (rev (sort_key k xs))"
  then have a: "a \<in> set xs" by simp
  have d: "distinct (map k (rev (sort_key k xs)))"
    using assms by (simp add: distinct_rev rev_map [symmetric] del: rev_map)
       (metis distinct_map distinct_sort mset_sort set_sort inj_on_cong)
  have "filter (\<lambda>x. k a = k x) (rev (sort_key k xs)) = [a]"
    using d a by (intro filter_key_distinct) simp_all
  moreover have "filter (\<lambda>x. k a = k x) xs = [a]"
    using assms a by (rule filter_key_distinct)
  ultimately show "filter (\<lambda>x. - k a = - k x) (rev (sort_key k xs)) = filter (\<lambda>x. - k a = - k x) xs"
    by simp
next
  have "sorted (map k (sort_key k xs))" by simp
  then show "sorted (map (\<lambda>r. - k r) (rev (sort_key k xs)))"
    by (rule sorted_neg_rev)
qed


subsection \<open>The filter\<close>

lemma view_sorted_Asc:
  "sc \<noteq> [] \<Longrightarrow> filteredAndSortedRows rt rs cs query (Some sc) Asc =
     sort_key (row_key rt (sort_type cs sc) sc) (filtered_rows rt rs query)"
  by (simp add: filteredAndSortedRows_def Let_def sort_Asc_key)

lemma view_sorted_Desc:
  "sc \<noteq> [] \<Longrightarrow> filteredAndSortedRows rt rs cs query (Some sc) Desc =
     sort_key (\<lambda>r. - row_key rt (sort_type cs sc) sc r) (filtered_rows rt rs query)"
  by (simp add: filteredAndSortedRows_def Let_def sort_Desc_key)

lemma filtered_rows_filter:
  "filtered_rows rt rs query =
   filter (\<lambda>r. trim query = [] \<or> row_matches rt (toLowerCase rt query) r) rs"
  by (simp add: filtered_rows_def)

lemma view_filter:
  "filteredAndSortedRows rt rs cs query sortCol d =
   filter (\<lambda>r. trim query = [] \<or> row_matches rt (toLowerCase rt query) r)
     (filteredAndSortedRows rt rs cs [] sortCol d)"
proof (cases sortCol)
  case None
  then show ?thesis
    by (simp add: filteredAndSortedRows_def Let_def filtered_rows_filter trim_def)
next
  case (Some sc)
  show ?thesis
  proof (cases "sc = []")
    case True
    with Some show ?thesis
      by (simp add: filteredAndSortedRows_def Let_def filtered_rows_filter trim_def)
  next
    case False
    have e: "filtered_rows rt rs [] = rs" by (simp add: filtered_rows_def trim_def)
    show ?thesis
    proof (cases d)
      case Asc
      show ?thesis
        unfolding Some Asc view_sorted_Asc [OF False] e
        by (simp add: filtered_rows_filter filter_sort)
    next
      case Desc
      show ?thesis
        unfolding Some Desc view_sorted_Desc [OF False] e
        by (simp add: filtered_rows_filter filter_sort)
    qed
  qed
qed

text \<open>
  Claim C7, amended.  For a search term that is not blank, a row is in the filtered rows
  if and only if one of its cell values, as a lowered string, includes the lowered term;
  for an empty or blank term every row is; and the filtered rows, and the view, of any
  term are a sub-list of those of the empty term.
\<close>

theorem search_filter:
  "(trim query \<noteq> [] \<longrightarrow>
      (r \<in> set (filtered_rows rt rs query) \<longleftrightarrow>
         r \<in> set rs \<and>
         list_ex (\<lambda>v. includes_js (toLowerCase rt (String_of rt (or_empty v))) (toLowerCase rt query))
           (map snd (rd_of r)))) \<and>
   (trim query = [] \<longrightarrow> filtered_rows rt rs query = rs) \<and>
   subseq (filtered_rows rt rs query) (filtered_rows rt rs []) \<and>
   subseq (filteredAndSortedRows rt rs cs query sortCol d)
     (filteredAndSortedRows rt rs cs [] sortCol d)"
proof (intro conjI impI)
  show "r \<in> set (filtered_rows rt rs query) \<longleftrightarrow>
         r \<in> set rs \<and>
         list_ex (\<lambda>v. includes_js (toLowerCase rt (String_of rt (or_empty v))) (toLowerCase rt query))
           (map snd (rd_of r))" if "trim query \<noteq> []"
    using that by (auto simp: filtered_rows_def row_matches_def)
  show "filtered_rows rt rs query = rs" if "trim query = []"
    using that by (simp add: filtered_rows_def)
  have "filtered_rows rt rs [] = rs" by (simp add: filtered_rows_def trim_def)
  then show "subseq (filtered_rows rt rs query) (filtered_rows rt rs [])"
    by (simp add: filtered_rows_filter)
  show "subseq (filteredAndSortedRows rt rs cs query sortCol d)
     (filteredAndSortedRows rt rs cs [] sortCol d)"
    by (subst view_filter) simp
qed

lemmas runtime_eval =
  plain_runtime_def lower_unit_def

theorem search_filter_witness:
  "trim (ascii ''pen'') \<noteq> [] \<and>
   pen_row \<in> set (filtered_rows plain_runtime [pen_row, book_row] (ascii ''pen'')) \<and>
   book_row \<notin> set (filtered_rows plain_runtime [pen_row, book_row] (ascii ''pen'')) \<and>
   trim [] = [] \<and> filtered_rows plain_runtime [pen_row, book_row] [] = [pen_row, book_row]"
proof -
  have t: "trim (ascii ''pen'') \<noteq> []" by (simp add: trim_def ascii_def is_space_def)
  have e: "trim [] = []" by (simp add: trim_def)
  have p: "list_ex (\<lambda>v. includes_js (toLowerCase plain_runtime (String_of plain_runtime (or_empty v)))
                (toLowerCase plain_runtime (ascii ''pen''))) (map snd (rd_of pen_row))"
    by (simp add: sales_eval runtime_eval ascii_def)
  have b: "\<not> list_ex (\<lambda>v. includes_js (toLowerCase plain_runtime (String_of plain_runtime (or_empty v)))
                (toLowerCase plain_runtime (ascii ''pen''))) (map snd (rd_of book_row))"
    by (simp add: sales_eval runtime_eval ascii_def)
  show ?thesis
    using t e p b
      search_filter [of "ascii ''pen''" pen_row plain_runtime "[pen_row, book_row]"]
      search_filter [of "ascii ''pen''" book_row plain_runtime "[pen_row, book_row]"]
      search_filter [of "[]" pen_row plain_runtime "[pen_row, book_row]"]
    by simp
qed

text \<open>
  The term of one space is blank: the row (Pen, 100) is in the filtered rows although no
  cell of it includes a space.
\<close>

theorem search_blank_term_counterexample:
  "filtered_rows plain_runtime [pen_row] (ascii '' '') = [pen_row] \<and>
   \<not> row_matches plain_runtime (toLowerCase plain_runtime (ascii '' '')) pen_row"
  by (simp add: filtered_rows_def row_matches_def trim_def is_space_def sales_eval runtime_eval
      ascii_def)

subsection \<open>Sorting in both directions\<close>

text \<open>
  Claim C8, amended.  Where no two rows of the filtered set have the same sort key, the
  descending view is the reverse of the ascending view; in either direction the rows
  with one sort key, which are the rows that compare equal, keep the order they have in
  the filtered set; and \<open>handleSort\<close> on the sorted column flips the direction, on
  another column it sorts ascending by that column.
\<close>

theorem sort_directions:
  "(sc \<noteq> [] \<and> distinct (map (row_key rt (sort_type cs sc) sc) (filtered_rows rt rs query)) \<longrightarrow>
      filteredAndSortedRows rt rs cs query (Some sc) Desc =
        rev (filteredAndSortedRows rt rs cs query (Some sc) Asc)) \<and>
   (sc \<noteq> [] \<longrightarrow>
      filter (\<lambda>r. row_key rt (sort_type cs sc) sc r = v)
          (filteredAndSortedRows rt rs cs query (Some sc) d) =
        filter (\<lambda>r. row_key rt (sort_type cs sc) sc r = v) (filtered_rows rt rs query)) \<and>
   (compare_rows rt ty sc d a b = Fin 0 \<longleftrightarrow> row_key rt ty sc a = row_key rt ty sc b) \<and>
   (sortColumnName p = Some sc \<longrightarrow>
      sortColumnName (handleSort sc p) = Some sc \<and>
      sortDirection (handleSort sc p) = (if sortDirection p = Asc then Desc else Asc)) \<and>
   (sortColumnName p \<noteq> Some sc \<longrightarrow>
      sortColumnName (handleSort sc p) = Some sc \<and> sortDirection (handleSort sc p) = Asc)"
proof (intro conjI impI)
  show "filteredAndSortedRows rt rs cs query (Some sc) Desc =
        rev (filteredAndSortedRows rt rs cs query (Some sc) Asc)"
    if "sc \<noteq> [] \<and> distinct (map (row_key rt (sort_type cs sc) sc) (filtered_rows rt rs query))"
    using that by (simp add: view_sorted_Asc view_sorted_Desc sort_key_neg_rev)
  show "filter (\<lambda>r. row_key rt (sort_type cs sc) sc r = v)
          (filteredAndSortedRows rt rs cs query (Some sc) d) =
        filter (\<lambda>r. row_key rt (sort_type cs sc) sc r = v) (filtered_rows rt rs query)"
    if "sc \<noteq> []"
  proof (cases d)
    case Asc
    with that show ?thesis by (simp add: view_sorted_Asc sort_key_stable)
  next
    case Desc
    have "filter (\<lambda>r. - row_key rt (sort_type cs sc) sc r = - v)
            (sort_key (\<lambda>r. - row_key rt (sort_type cs sc) sc r) (filtered_rows rt rs query)) =
          filter (\<lambda>r. - row_key rt (sort_type cs sc) sc r = - v) (filtered_rows rt rs query)"
      by (rule sort_key_stable)
    with Desc that show ?thesis by (simp add: view_sorted_Desc)
  qed
  show "compare_rows rt ty sc d a b = Fin 0 \<longleftrightarrow> row_key rt ty sc a = row_key rt ty sc b"
    by (rule compare_rows_zero)
  show "sortColumnName (handleSort sc p) = Some sc" if "sortColumnName p = Some sc"
    using that by (simp add: handleSort_def)
  show "sortDirection (handleSort sc p) = (if sortDirection p = Asc then Desc else Asc)"
    if "sortColumnName p = Some sc"
    using that by (simp add: handleSort_def)
  show "sortColumnName (handleSort sc p) = Some sc" if "sortColumnName p \<noteq> Some sc"
    using that by (simp add: handleSort_def)
  show "sortDirection (handleSort sc p) = Asc" if "sortColumnName p \<noteq> Some sc"
    using that by (simp add: handleSort_def)
qed

lemma row_key_pen: "row_key plain_runtime (ascii ''currency'') (ascii ''Amount'') pen_row = 100"
  by (simp add: row_key_def sales_eval number_eval)

lemma row_key_book: "row_key plain_runtime (ascii ''currency'') (ascii ''Amount'') book_row = 501 / 2"
  by (simp add: row_key_def sales_eval number_eval)

lemma row_key_pencil: "row_key plain_runtime (ascii ''currency'') (ascii ''Amount'') pencil_row = 100"
  by (simp add: row_key_def sales_eval number_eval)

lemma sort_type_amount:
  "sort_type [amount_column, item_column] (ascii ''Amount'') = ascii ''currency''"
  by (simp add: sort_type_def sales_eval ascii_def)

theorem sort_directions_witness:
  "ascii ''Amount'' \<noteq> [] \<and>
   distinct (map (row_key plain_runtime (sort_type [amount_column, item_column] (ascii ''Amount''))
      (ascii ''Amount'')) (filtered_rows plain_runtime [book_row, pen_row] [])) \<and>
   filteredAndSortedRows plain_runtime [book_row, pen_row] [amount_column, item_column] []
      (Some (ascii ''Amount'')) Asc = [pen_row, book_row] \<and>
   filteredAndSortedRows plain_runtime [book_row, pen_row] [amount_column, item_column] []
      (Some (ascii ''Amount'')) Desc = [book_row, pen_row] \<and>
   sortColumnName sales_page \<noteq> Some (ascii ''Amount'') \<and>
   sortDirection (handleSort (ascii ''Amount'') sales_page) = Asc \<and>
   sortColumnName (handleSort (ascii ''Amount'') sales_page) = Some (ascii ''Amount'') \<and>
   sortDirection (handleSort (ascii ''Amount'') (handleSort (ascii ''Amount'') sales_page)) = Desc"
proof -
  have n: "ascii ''Amount'' \<noteq> []" by (simp add: ascii_def)
  have f: "filtered_rows plain_runtime [book_row, pen_row] [] = [book_row, pen_row]"
    by (simp add: filtered_rows_def trim_def)
  have d: "distinct (map (row_key plain_runtime (sort_type [amount_column, item_column] (ascii ''Amount''))
      (ascii ''Amount'')) (filtered_rows plain_runtime [book_row, pen_row] []))"
    by (simp add: f sort_type_amount row_key_pen row_key_book)
  have a: "filteredAndSortedRows plain_runtime [book_row, pen_row] [amount_column, item_column] []
      (Some (ascii ''Amount'')) Asc = [pen_row, book_row]"
    by (simp add: view_sorted_Asc [OF n] f sort_type_amount row_key_pen row_key_book)
  have s: "sortColumnName sales_page \<noteq> Some (ascii ''Amount'')"
    by (simp add: sales_page_def)
  have s2: "sortColumnName (handleSort (ascii ''Amount'') sales_page) = Some (ascii ''Amount'')"
    by (simp add: handleSort_def sales_page_def)
  have s3: "sortDirection (handleSort (ascii ''Amount'') sales_page) = Asc"
    by (simp add: handleSort_def sales_page_def)
  show ?thesis
    using n d a s s2 s3
      sort_directions [of "ascii ''Amount''" plain_runtime "[amount_column, item_column]"
        "[book_row, pen_row]" "[]" _ _ _ _ _ sales_page]
      sort_directions [of "ascii ''Amount''" plain_runtime "[amount_column, item_column]"
        "[book_row, pen_row]" "[]" _ _ _ _ _ "handleSort (ascii ''Amount'') sales_page"]
    by simp
qed

text \<open>
  Two rows with the amount 100 compare equal: both directions keep their order, and the
  descending view is not the reverse of the ascending one.
\<close>

theorem sort_ties_counterexample:
  "filteredAndSortedRows plain_runtime [pen_row, pencil_row] [amount_column, item_column] []
      (Some (ascii ''Amount'')) Asc = [pen_row, pencil_row] \<and>
   filteredAndSortedRows plain_runtime [pen_row, pencil_row] [amount_column, item_column] []
      (Some (ascii ''Amount'')) Desc = [pen_row, pencil_row] \<and>
   filteredAndSortedRows plain_runtime [pen_row, pencil_row] [amount_column, item_column] []
      (Some (ascii ''Amount'')) Desc \<noteq>
   rev (filteredAndSortedRows plain_runtime [pen_row, pencil_row] [amount_column, item_column] []
      (Some (ascii ''Amount'')) Asc)"
proof -
  have n: "ascii ''Amount'' \<noteq> []" by (simp add: ascii_def)
  have f: "filtered_rows plain_runtime [pen_row, pencil_row] [] = [pen_row, pencil_row]"
    by (simp add: filtered_rows_def trim_def)
  have ne: "pen_row \<noteq> pencil_row" by (simp add: pen_row_def pencil_row_def ascii_def)
  show ?thesis
    using ne
    by (simp add: view_sorted_Asc [OF n] view_sorted_Desc [OF n] f sort_type_amount
        row_key_pen row_key_pencil)
qed

section \<open>Properties of the cross-table analytics\<close>


lemma starts_with_iff: "starts_with s w \<longleftrightarrow> (\<exists>ss. s = w @ ss)"
  by (induction s w rule: starts_with.induct) auto

lemma includes_js_iff: "includes_js s w \<longleftrightarrow> (\<exists>ps ss. s = ps @ w @ ss)"
proof (induction s)
  case Nil
  then show ?case by auto
next
  case (Cons c cs)
  show ?case
  proof
    assume "includes_js (c # cs) w"
    then consider "starts_with (c # cs) w" | "includes_js cs w" by auto
    then show "\<exists>ps ss. c # cs = ps @ w @ ss"
    proof cases
      case 1
      then obtain ss where "c # cs = w @ ss" by (auto simp: starts_with_iff)
      then have "c # cs = [] @ w @ ss" by simp
      then show ?thesis by blast
    next
      case 2
      with Cons obtain ps ss where "cs = ps @ w @ ss" by auto
      then have "c # cs = (c # ps) @ w @ ss" by simp
      then show ?thesis by blast
    qed
  next
    assume "\<exists>ps ss. c # cs = ps @ w @ ss"
    then obtain ps ss where e: "c # cs = ps @ w @ ss" by auto
    show "includes_js (c # cs) w"
    proof (cases ps)
      case Nil
      with e have "starts_with (c # cs) w" by (auto simp: starts_with_iff)
      then show ?thesis by simp
    next
      case (Cons p ps')
      with e have "cs = ps' @ w @ ss" by simp
      with Cons.IH have "includes_js cs w" by blast
      then show ?thesis by simp
    qed
  qed
qed

lemma dropWhile_keeps_word:
  assumes "w \<noteq> []" and "\<not> P (hd w)"
  shows "\<exists>ps'. dropWhile P (ps @ w @ ss) = ps' @ w @ ss"
proof (induction ps)
  case Nil
  from assms obtain x xs where "w = x # xs" "\<not> P x" by (cases w) auto
  then have "dropWhile P ([] @ w @ ss) = [] @ w @ ss" by simp
  then show ?case by blast
next
  case (Cons p ps)
  show ?case
  proof (cases "P p")
    case True
    with Cons show ?thesis by simp
  next
    case False
    then have "dropWhile P ((p # ps) @ w @ ss) = (p # ps) @ w @ ss" by simp
    then show ?thesis by blast
  qed
qed

lemma trim_keeps_word:
  assumes "w \<noteq> []" and "\<not> is_space (hd w)" and "\<not> is_space (last w)"
    and "s = ps @ w @ ss"
  shows "\<exists>ps' ss'. trim s = ps' @ w @ ss'"
proof -
  obtain ps' where a: "dropWhile is_space s = ps' @ w @ ss"
    using dropWhile_keeps_word [of w is_space ps ss] assms by auto
  have r: "rev (dropWhile is_space s) = rev ss @ rev w @ rev ps'"
    by (simp add: a)
  have "rev w \<noteq> []" "\<not> is_space (hd (rev w))"
    using assms(1,3) by (simp_all add: hd_rev)
  then obtain q where "dropWhile is_space (rev ss @ rev w @ rev ps') = q @ rev w @ rev ps'"
    using dropWhile_keeps_word [of "rev w" is_space "rev ss" "rev ps'"] by auto
  then have "trim s = ps' @ w @ rev q"
    by (simp add: trim_def r)
  then show ?thesis by blast
qed

lemma trim_sublist: "\<exists>l t. s = l @ trim s @ t"
proof -
  have "s = takeWhile is_space s @ dropWhile is_space s" by simp
  moreover have "dropWhile is_space s = trim s @ rev (takeWhile is_space (rev (dropWhile is_space s)))"
    by (metis rev_append rev_rev_ident takeWhile_dropWhile_id trim_def)
  ultimately show ?thesis by metis
qed

lemma is_space_lower_unit: "is_space (lower_unit c) = is_space c"
  by (auto simp: is_space_def lower_unit_def)

lemma trim_map_lower: "map lower_unit (trim s) = trim (map lower_unit s)"
proof -
  have c: "is_space \<circ> lower_unit = is_space"
    by (rule ext) (simp add: is_space_lower_unit)
  show ?thesis
    by (simp add: trim_def dropWhile_map rev_map c)
qed

lemma includes_trim:
  assumes "w \<noteq> []" and "\<not> is_space (hd w)" and "\<not> is_space (last w)"
  shows "includes_js (map lower_unit (trim s)) w \<longleftrightarrow> includes_js (map lower_unit s) w"
proof
  assume "includes_js (map lower_unit (trim s)) w"
  then obtain ps ss where a: "map lower_unit (trim s) = ps @ w @ ss"
    by (auto simp: includes_js_iff)
  obtain l t where "s = l @ trim s @ t" using trim_sublist by blast
  then have "map lower_unit s = map lower_unit l @ map lower_unit (trim s) @ map lower_unit t"
    by (metis map_append)
  with a have "map lower_unit s = (map lower_unit l @ ps) @ w @ (ss @ map lower_unit t)"
    by simp
  then show "includes_js (map lower_unit s) w"
    unfolding includes_js_iff by blast
next
  assume "includes_js (map lower_unit s) w"
  then obtain ps ss where "map lower_unit s = ps @ w @ ss"
    by (auto simp: includes_js_iff)
  from trim_keeps_word [OF assms this]
  show "includes_js (map lower_unit (trim s)) w"
    by (simp add: trim_map_lower includes_js_iff)
qed

lemma regex_test_trim:
  assumes "list_all plain_word words"
  shows "regex_test words (trim s) = regex_test words s"
  using assms
  by (induction words) (auto simp: regex_test_def plain_word_def includes_trim)

lemma amount_words_plain: "list_all plain_word amount_words"
  by (simp add: amount_words_def plain_word_def ascii_def is_space_def)

lemma expense_words_plain: "list_all plain_word expense_words"
  by (simp add: expense_words_def plain_word_def ascii_def is_space_def)

lemma regex_test_empty: "list_all plain_word words \<Longrightarrow> \<not> regex_test words []"
  by (induction words) (auto simp: regex_test_def plain_word_def)


lemma dashboard_entry_cases:
  "dashboard_entry c =
     (if contributes c Expense then Some (trim (c_name c), Expense)
      else if contributes c Revenue then Some (trim (c_name c), Revenue)
      else None)"
proof -
  have a: "regex_test amount_words (trim (c_name c)) = regex_test amount_words (c_name c)"
    by (rule regex_test_trim) (rule amount_words_plain)
  have e: "regex_test expense_words (trim (c_name c)) = regex_test expense_words (c_name c)"
    by (rule regex_test_trim) (rule expense_words_plain)
  have n: "trim (c_name c) = [] \<Longrightarrow>
           \<not> regex_test amount_words (c_name c) \<and> \<not> regex_test expense_words (c_name c)"
    using a e regex_test_empty [OF amount_words_plain] regex_test_empty [OF expense_words_plain]
    by metis
  show ?thesis
    using n by (auto simp: dashboard_entry_def contributes_def number_or_currency_def Let_def a e)
qed

lemma foldl_add_cell:
  "foldl (add_cell r) (Fin a, Fin b) cols =
   (Fin (a + sum_list (map (\<lambda>col. num_val (toNumberSafe_dashboard (get (rd_of r) (fst col))))
                          (filter (\<lambda>col. snd col = Revenue) cols))),
    Fin (b + sum_list (map (\<lambda>col. num_val (toNumberSafe_dashboard (get (rd_of r) (fst col))))
                          (filter (\<lambda>col. snd col = Expense) cols))))"
proof (induction cols arbitrary: a b)
  case Nil
  then show ?case by simp
next
  case (Cons col cols)
  obtain x where x: "toNumberSafe_dashboard (get (rd_of r) (fst col)) = Fin x"
    using toNumberSafe_dashboard_Fin by blast
  have step: "add_cell r (Fin a, Fin b) col =
      (if snd col = Revenue then (Fin (a + x), Fin b) else (Fin a, Fin (b + x)))"
    by (simp add: add_cell_def Let_def x)
  show ?case
  proof (cases "snd col")
    case Revenue
    then show ?thesis by (simp add: step Cons.IH add.assoc x)
  next
    case Expense
    then show ?thesis by (simp add: step Cons.IH add.assoc x)
  qed
qed

lemma colsByTable_bucket:
  "sum_list (map (\<lambda>col. f (fst col)) (filter (\<lambda>col. snd col = b) (colsByTable cs tid))) =
   sum_list (map (\<lambda>c. f (trim (c_name c)))
               (filter (\<lambda>c. c_table_id c = tid \<and> contributes c b) cs))"
proof (induction cs)
  case Nil
  then show ?case by (simp add: colsByTable_def map_filter_simps)
next
  case (Cons c cs)
  have u: "\<not> (contributes c Expense \<and> contributes c Revenue)"
    by (auto simp: contributes_def)
  from Cons show ?case
    using u
    by (cases b) (auto simp: colsByTable_def map_filter_simps dashboard_entry_cases)
qed

lemma add_row_sum:
  "add_row cs (Fin a, Fin b) r =
   (Fin (a + sum_list (map (\<lambda>c. num_val (toNumberSafe_dashboard (get (rd_of r) (trim (c_name c)))))
                 (filter (\<lambda>c. c_table_id c = r_table_id r \<and> contributes c Revenue) cs))),
    Fin (b + sum_list (map (\<lambda>c. num_val (toNumberSafe_dashboard (get (rd_of r) (trim (c_name c)))))
                 (filter (\<lambda>c. c_table_id c = r_table_id r \<and> contributes c Expense) cs))))"
proof -
  have "add_row cs (Fin a, Fin b) r =
        foldl (add_cell r) (Fin a, Fin b) (colsByTable cs (r_table_id r))"
    by (simp add: add_row_def Let_def)
  then show ?thesis
    by (simp add: foldl_add_cell
        colsByTable_bucket [where f = "\<lambda>n. num_val (toNumberSafe_dashboard (get (rd_of r) n))"])
qed

lemma foldl_add_row:
  "foldl (add_row cs) (Fin a, Fin b) rs =
   (Fin (a + bucket_sum cs rs Revenue), Fin (b + bucket_sum cs rs Expense))"
proof (induction rs arbitrary: a b)
  case Nil
  then show ?case by (simp add: bucket_sum_def)
next
  case (Cons r rs)
  show ?case
    by (simp add: add_row_sum Cons.IH bucket_sum_def add.assoc)
qed

subsection \<open>The summary of the analytics page\<close>

lemma toNumberSafe_analytics_Fin:
  "toNumberSafe_analytics rt v = Fin (num_val (toNumberSafe_analytics rt v))"
  using finite_or_zero_Fin [of "StringToNumber (strip_rupee_commas_spaces (String_of rt v))"]
  by (simp add: toNumberSafe_analytics_def)

lemma foldl_summary_cell:
  "foldl (summary_cell rt r) (Fin a, Fin b) cols =
   (Fin (a + sum_list (map (\<lambda>c. num_val (toNumberSafe_analytics rt (get (rd_of r) (c_name c))))
                          (filter (\<lambda>c. analytics_bucket rt c = Some Revenue) cols))),
    Fin (b + sum_list (map (\<lambda>c. num_val (toNumberSafe_analytics rt (get (rd_of r) (c_name c))))
                          (filter (\<lambda>c. analytics_bucket rt c = Some Expense) cols))))"
  if "list_all (\<lambda>c. c_type c = ascii ''currency'') cols"
  using that
proof (induction cols arbitrary: a b)
  case Nil
  then show ?case by simp
next
  case (Cons c cols)
  obtain x where x: "toNumberSafe_analytics rt (get (rd_of r) (c_name c)) = Fin x"
    using toNumberSafe_analytics_Fin by blast
  from Cons.prems have cur: "c_type c = ascii ''currency''" and rest:
    "list_all (\<lambda>c. c_type c = ascii ''currency'') cols" by simp_all
  have step: "summary_cell rt r (Fin a, Fin b) c =
      (case analytics_bucket rt c of
         None \<Rightarrow> (Fin a, Fin b)
       | Some Revenue \<Rightarrow> (Fin (a + x), Fin b)
       | Some Expense \<Rightarrow> (Fin a, Fin (b + x)))"
    by (simp add: summary_cell_def analytics_bucket_def Let_def x cur)
  show ?case
  proof (cases "analytics_bucket rt c")
    case None
    then show ?thesis by (simp add: step Cons.IH [OF rest])
  next
    case (Some k)
    then show ?thesis
      by (cases k) (simp_all add: step Cons.IH [OF rest] add.assoc x)
  qed
qed

lemma analytics_bucket_currency:
  "analytics_bucket rt c = Some k \<Longrightarrow> c_type c = ascii ''currency''"
  by (auto simp: analytics_bucket_def split: if_splits)

lemma filter_bucket_cols:
  "filter (\<lambda>c. c_table_id c = tid \<and> analytics_bucket rt c = Some k) (currencyCols cs) =
   filter (\<lambda>c. c_table_id c = tid \<and> analytics_bucket rt c = Some k) cs"
  by (induction cs) (auto simp: currencyCols_def dest: analytics_bucket_currency)

lemma summary_row:
  "foldl (summary_cell rt r) (Fin a, Fin b)
     (filter (\<lambda>c. c_table_id c = r_table_id r) (currencyCols cs)) =
   (Fin (a + sum_list (map (\<lambda>c. num_val (toNumberSafe_analytics rt (get (rd_of r) (c_name c))))
             (filter (\<lambda>c. c_table_id c = r_table_id r \<and> analytics_bucket rt c = Some Revenue) cs))),
    Fin (b + sum_list (map (\<lambda>c. num_val (toNumberSafe_analytics rt (get (rd_of r) (c_name c))))
             (filter (\<lambda>c. c_table_id c = r_table_id r \<and> analytics_bucket rt c = Some Expense) cs))))"
proof -
  have "list_all (\<lambda>c. c_type c = ascii ''currency'')
          (filter (\<lambda>c. c_table_id c = r_table_id r) (currencyCols cs))"
    by (simp add: currencyCols_def list_all_iff)
  then have "foldl (summary_cell rt r) (Fin a, Fin b)
     (filter (\<lambda>c. c_table_id c = r_table_id r) (currencyCols cs)) =
   (Fin (a + sum_list (map (\<lambda>c. num_val (toNumberSafe_analytics rt (get (rd_of r) (c_name c))))
       (filter (\<lambda>c. analytics_bucket rt c = Some Revenue)
          (filter (\<lambda>c. c_table_id c = r_table_id r) (currencyCols cs))))),
    Fin (b + sum_list (map (\<lambda>c. num_val (toNumberSafe_analytics rt (get (rd_of r) (c_name c))))
       (filter (\<lambda>c. analytics_bucket rt c = Some Expense)
          (filter (\<lambda>c. c_table_id c = r_table_id r) (currencyCols cs))))))"
    by (rule foldl_summary_cell)
  then show ?thesis
    by (simp add: filter_bucket_cols)
qed

lemma foldl_summary_rows:
  "foldl (\<lambda>acc r. foldl (summary_cell rt r) acc
            (filter (\<lambda>c. c_table_id c = r_table_id r) (currencyCols cs))) (Fin a, Fin b) rs =
   (Fin (a + analytics_sum rt cs rs Revenue), Fin (b + analytics_sum rt cs rs Expense))"
proof (induction rs arbitrary: a b)
  case Nil
  then show ?case by (simp add: analytics_sum_def)
next
  case (Cons r rs)
  show ?case
    by (simp add: summary_row Cons.IH analytics_sum_def add.assoc)
qed

lemma moneySummary_sums:
  "moneySummary rt cs rs =
     (Fin (analytics_sum rt cs rs Revenue), Fin (analytics_sum rt cs rs Expense),
      Fin (analytics_sum rt cs rs Revenue - analytics_sum rt cs rs Expense))"
  using foldl_summary_rows [of rt cs 0 0 rs]
  by (simp add: moneySummary_def Let_def num_sub_def)


text \<open>
  Claim C4, amended.  In the table analytics of the dashboard, a column is entered as an
  expense column if and only if its type is number or currency and its name matches the
  expense pattern, as a revenue column if and only if its type is number or currency and
  its name matches the amount pattern and not the expense pattern, and is not entered
  otherwise; the revenue and the expense of the summary are the sums, over the rows, of
  the cells of the revenue columns and of the expense columns of the row's table.  The
  summary of the analytics page follows another rule: only a column of type currency
  counts; one whose lowered name includes "total" is skipped, one whose lowered name
  includes "expense" or "cost" is an expense, any other is revenue; its revenue and
  expense are the sums of the cells of these columns, and its profit their difference.
\<close>

theorem analytics_classification:
  "((\<exists>n. dashboard_entry c = Some (n, Expense)) \<longleftrightarrow>
      number_or_currency (c_type c) \<and> regex_test expense_words (c_name c)) \<and>
   ((\<exists>n. dashboard_entry c = Some (n, Revenue)) \<longleftrightarrow>
      number_or_currency (c_type c) \<and> regex_test amount_words (c_name c) \<and>
      \<not> regex_test expense_words (c_name c)) \<and>
   (dashboard_entry c = None \<longleftrightarrow>
      \<not> (number_or_currency (c_type c) \<and>
         (regex_test amount_words (c_name c) \<or> regex_test expense_words (c_name c)))) \<and>
   table_money cs rs = (Fin (bucket_sum cs rs Revenue), Fin (bucket_sum cs rs Expense)) \<and>
   (analytics_bucket rt c = Some Expense \<longleftrightarrow>
      c_type c = ascii ''currency'' \<and>
      \<not> includes_js (toLowerCase rt (c_name c)) (ascii ''total'') \<and>
      (includes_js (toLowerCase rt (c_name c)) (ascii ''expense'') \<or>
       includes_js (toLowerCase rt (c_name c)) (ascii ''cost''))) \<and>
   (analytics_bucket rt c = Some Revenue \<longleftrightarrow>
      c_type c = ascii ''currency'' \<and>
      \<not> includes_js (toLowerCase rt (c_name c)) (ascii ''total'') \<and>
      \<not> includes_js (toLowerCase rt (c_name c)) (ascii ''expense'') \<and>
      \<not> includes_js (toLowerCase rt (c_name c)) (ascii ''cost'')) \<and>
   (analytics_bucket rt c = None \<longleftrightarrow>
      c_type c \<noteq> ascii ''currency'' \<or>
      includes_js (toLowerCase rt (c_name c)) (ascii ''total'')) \<and>
   moneySummary rt cs rs =
     (Fin (analytics_sum rt cs rs Revenue), Fin (analytics_sum rt cs rs Expense),
      Fin (analytics_sum rt cs rs Revenue - analytics_sum rt cs rs Expense))"
proof (intro conjI)
  show "analytics_bucket rt c = Some Expense \<longleftrightarrow>
      c_type c = ascii ''currency'' \<and>
      \<not> includes_js (toLowerCase rt (c_name c)) (ascii ''total'') \<and>
      (includes_js (toLowerCase rt (c_name c)) (ascii ''expense'') \<or>
       includes_js (toLowerCase rt (c_name c)) (ascii ''cost''))"
    by (simp add: analytics_bucket_def)
  show "analytics_bucket rt c = Some Revenue \<longleftrightarrow>
      c_type c = ascii ''currency'' \<and>
      \<not> includes_js (toLowerCase rt (c_name c)) (ascii ''total'') \<and>
      \<not> includes_js (toLowerCase rt (c_name c)) (ascii ''expense'') \<and>
      \<not> includes_js (toLowerCase rt (c_name c)) (ascii ''cost'')"
    by (simp add: analytics_bucket_def)
  show "analytics_bucket rt c = None \<longleftrightarrow>
      c_type c \<noteq> ascii ''currency'' \<or>
      includes_js (toLowerCase rt (c_name c)) (ascii ''total'')"
    by (simp add: analytics_bucket_def)
  show "moneySummary rt cs rs =
     (Fin (analytics_sum rt cs rs Revenue), Fin (analytics_sum rt cs rs Expense),
      Fin (analytics_sum rt cs rs Revenue - analytics_sum rt cs rs Expense))"
    by (rule moneySummary_sums)
  show "(\<exists>n. dashboard_entry c = Some (n, Expense)) \<longleftrightarrow>
      number_or_currency (c_type c) \<and> regex_test expense_words (c_name c)"
    by (auto simp: dashboard_entry_cases contributes_def)
  show "(\<exists>n. dashboard_entry c = Some (n, Revenue)) \<longleftrightarrow>
      number_or_currency (c_type c) \<and> regex_test amount_words (c_name c) \<and>
      \<not> regex_test expense_words (c_name c)"
    by (auto simp: dashboard_entry_cases contributes_def)
  show "dashboard_entry c = None \<longleftrightarrow>
      \<not> (number_or_currency (c_type c) \<and>
         (regex_test amount_words (c_name c) \<or> regex_test expense_words (c_name c)))"
    by (auto simp: dashboard_entry_cases contributes_def)
  show "table_money cs rs = (Fin (bucket_sum cs rs Revenue), Fin (bucket_sum cs rs Expense))"
    unfolding table_money_def using foldl_add_row [of cs 0 0 rs] by simp
qed

lemma regex_amount_Amount: "regex_test amount_words (ascii ''Amount'')"
  by (simp add: regex_test_def amount_words_def ascii_def lower_unit_def)

lemma regex_expense_Amount: "\<not> regex_test expense_words (ascii ''Amount'')"
  by (simp add: regex_test_def expense_words_def ascii_def lower_unit_def)

theorem analytics_classification_witness:
  "dashboard_entry amount_column = Some (ascii ''Amount'', Revenue) \<and>
   dashboard_entry item_column = None \<and>
   table_money [amount_column, item_column] [pen_row, book_row] = (Fin (701 / 2), Fin 0) \<and>
   analytics_bucket plain_runtime amount_column = Some Revenue \<and>
   analytics_bucket plain_runtime item_column = None \<and>
   moneySummary plain_runtime [amount_column, item_column] [pen_row, book_row] =
     (Fin (701 / 2), Fin 0, Fin (701 / 2))"
proof -
  have t: "number_or_currency (c_type amount_column)" "c_name amount_column = ascii ''Amount''"
    "\<not> number_or_currency (c_type item_column)"
    by (simp_all add: amount_column_def item_column_def number_or_currency_def ascii_def)
  have tr: "trim (ascii ''Amount'') = ascii ''Amount''"
    by (simp add: trim_def ascii_def is_space_def)
  have cr: "contributes amount_column Revenue" "\<not> contributes amount_column Expense"
    "\<not> contributes item_column Revenue" "\<not> contributes item_column Expense"
    using t regex_amount_Amount regex_expense_Amount by (simp_all add: contributes_def)
  have ids: "c_table_id amount_column = ascii ''t1''" "c_table_id item_column = ascii ''t1''"
    "r_table_id pen_row = ascii ''t1''" "r_table_id book_row = ascii ''t1''"
    by (simp_all add: amount_column_def item_column_def pen_row_def book_row_def)
  have v: "num_val (toNumberSafe_dashboard (get (rd_of pen_row) (ascii ''Amount''))) = 100"
    "num_val (toNumberSafe_dashboard (get (rd_of book_row) (ascii ''Amount''))) = 501 / 2"
    by (simp_all add: sales_eval number_eval)
  have b: "bucket_sum [amount_column, item_column] [pen_row, book_row] Revenue = 701 / 2"
    "bucket_sum [amount_column, item_column] [pen_row, book_row] Expense = 0"
    by (simp_all add: bucket_sum_def cr ids t tr v)
  have ab: "analytics_bucket plain_runtime amount_column = Some Revenue"
    "analytics_bucket plain_runtime item_column = None"
    by (simp_all add: analytics_bucket_def amount_column_def item_column_def runtime_eval
        ascii_def)
  have va: "num_val (toNumberSafe_analytics plain_runtime (get (rd_of pen_row) (ascii ''Amount''))) = 100"
    "num_val (toNumberSafe_analytics plain_runtime (get (rd_of book_row) (ascii ''Amount''))) = 501 / 2"
    by (simp_all add: toNumberSafe_analytics_def sales_eval number_eval)
  have an: "analytics_sum plain_runtime [amount_column, item_column] [pen_row, book_row] Revenue = 701 / 2"
    "analytics_sum plain_runtime [amount_column, item_column] [pen_row, book_row] Expense = 0"
    by (simp_all add: analytics_sum_def ab ids t va)
  show ?thesis
    using t tr b ab an regex_amount_Amount regex_expense_Amount
      analytics_classification [where c = amount_column and cs = "[amount_column, item_column]"
        and rs = "[pen_row, book_row]" and rt = plain_runtime]
      analytics_classification [where c = item_column and cs = "[amount_column, item_column]"
        and rs = "[pen_row, book_row]" and rt = plain_runtime]
    by (auto simp: dashboard_entry_cases cr)
qed

text \<open>
  The summary of the analytics page follows another rule: the currency column "Balance"
  matches neither pattern, and its cell is added to the revenue; the dashboard leaves
  it out.
\<close>

theorem moneySummary_counterexample:
  "c_type balance_column = ascii ''currency'' \<and>
   \<not> regex_test amount_words (c_name balance_column) \<and>
   \<not> regex_test expense_words (c_name balance_column) \<and>
   moneySummary plain_runtime [balance_column] [balance_row] = (Fin 5, Fin 0, Fin 5) \<and>
   table_money [balance_column] [balance_row] = (Fin 0, Fin 0)"
  by (simp add: moneySummary_def currencyCols_def summary_cell_def toNumberSafe_analytics_def
      balance_column_def balance_row_def regex_test_def amount_words_def expense_words_def
      table_money_def add_row_def colsByTable_def dashboard_entry_def map_filter_simps
      rd_of_def get_def runtime_eval number_eval num_sub_def Let_def)

section \<open>Properties of the handlers of the table editor\<close>

subsection \<open>Calls that succeed\<close>

lemma request_ok:
  "failure b c = None \<Longrightarrow>
   request b c w = (None, w\<lparr>db := apply_call b c (db w), calls := calls w @ [c]\<rparr>)"
  by (simp add: request_def)

lemma request_failed:
  "failure b c = Some msg \<Longrightarrow> request b c w = (Some msg, w\<lparr>calls := calls w @ [c]\<rparr>)"
  by (simp add: request_def)






lemma guarded_update:
  "(if length rs > 0 then update_each_row b f rs w else w) = update_each_row b f rs w"
  by (cases rs) (simp_all add: update_each_row_def)


lemma rd_of_set [simp]: "rd_of (r\<lparr>r_row_data := Some x\<rparr>) = x"
  by (simp add: rd_of_def)

lemma row_updated_ids [simp]:
  "r_id (row_updated f tid r) = r_id r" "r_table_id (row_updated f tid r) = r_table_id r"
  by (simp_all add: row_updated_def split: option.splits)


subsection \<open>Deleting a table\<close>

lemma loadTables_effect:
  "db (loadTables b uid sel w) = db w \<and>
   filter is_delete (calls (loadTables b uid sel w)) = filter is_delete (calls w) \<and>
   take (length (calls w)) (calls (loadTables b uid sel w)) = calls w \<and>
   set (toasts w) \<subseteq> set (toasts (loadTables b uid sel w))"
  by (auto simp: loadTables_def request_def toast_error_def Let_def
      split: option.splits list.splits)

text \<open>
  Claim C9.  \<open>handleDeleteTable\<close> deletes the rows of the table, then its columns, then
  the table, in this order and nothing else: if the first deletion fails, it is the only
  call; if the second fails, the third is not made; whichever fails, its message (or
  "Table delete failed" for an empty one) is shown as an error and the state of the page
  is as before; if none fails, the three deletions are the calls made, in this order,
  before the tables are loaded again, and the success is shown.
\<close>

theorem delete_table_order:
  "(failure b (DeleteRows t) = Some msg \<longrightarrow>
      calls (handleDeleteTable b uid t w) = calls w @ [DeleteRows t] \<and>
      toasts (handleDeleteTable b uid t w) =
        toasts w @ [ToastError (if msg = [] then ascii ''Table delete failed'' else msg)] \<and>
      ui (handleDeleteTable b uid t w) = ui w \<and> db (handleDeleteTable b uid t w) = db w) \<and>
   (failure b (DeleteRows t) = None \<and> failure b (DeleteColumns t) = Some msg \<longrightarrow>
      calls (handleDeleteTable b uid t w) = calls w @ [DeleteRows t, DeleteColumns t] \<and>
      toasts (handleDeleteTable b uid t w) =
        toasts w @ [ToastError (if msg = [] then ascii ''Table delete failed'' else msg)] \<and>
      ui (handleDeleteTable b uid t w) = ui w) \<and>
   (failure b (DeleteRows t) = None \<and> failure b (DeleteColumns t) = None \<and>
    failure b (DeleteTable t) = Some msg \<longrightarrow>
      calls (handleDeleteTable b uid t w) =
        calls w @ [DeleteRows t, DeleteColumns t, DeleteTable t] \<and>
      toasts (handleDeleteTable b uid t w) =
        toasts w @ [ToastError (if msg = [] then ascii ''Table delete failed'' else msg)] \<and>
      ui (handleDeleteTable b uid t w) = ui w) \<and>
   (failure b (DeleteRows t) = None \<and> failure b (DeleteColumns t) = None \<and>
    failure b (DeleteTable t) = None \<longrightarrow>
      take (length (calls w) + 3) (calls (handleDeleteTable b uid t w)) =
        calls w @ [DeleteRows t, DeleteColumns t, DeleteTable t] \<and>
      filter is_delete (calls (handleDeleteTable b uid t w)) =
        filter is_delete (calls w) @ [DeleteRows t, DeleteColumns t, DeleteTable t] \<and>
      ToastSuccess (ascii ''Table deleted'') \<in> set (toasts (handleDeleteTable b uid t w)) \<and>
      db (handleDeleteTable b uid t w) =
        apply_call b (DeleteTable t)
          (apply_call b (DeleteColumns t) (apply_call b (DeleteRows t) (db w))))"
proof (intro conjI impI)
  assume f: "failure b (DeleteRows t) = Some msg"
  then have e: "handleDeleteTable b uid t w =
      delete_failed msg (w\<lparr>calls := calls w @ [DeleteRows t]\<rparr>)"
    by (simp add: handleDeleteTable_def request_failed)
  show "calls (handleDeleteTable b uid t w) = calls w @ [DeleteRows t]"
    by (simp add: e delete_failed_def toast_error_def)
  show "toasts (handleDeleteTable b uid t w) =
        toasts w @ [ToastError (if msg = [] then ascii ''Table delete failed'' else msg)]"
    by (simp add: e delete_failed_def toast_error_def)
  show "ui (handleDeleteTable b uid t w) = ui w"
    by (simp add: e delete_failed_def toast_error_def)
  show "db (handleDeleteTable b uid t w) = db w"
    by (simp add: e delete_failed_def toast_error_def)
next
  assume f: "failure b (DeleteRows t) = None \<and> failure b (DeleteColumns t) = Some msg"
  then have e: "handleDeleteTable b uid t w =
      delete_failed msg
        (w\<lparr>db := apply_call b (DeleteRows t) (db w),
           calls := calls w @ [DeleteRows t] @ [DeleteColumns t]\<rparr>)"
    by (simp add: handleDeleteTable_def request_failed request_ok)
  show "calls (handleDeleteTable b uid t w) = calls w @ [DeleteRows t, DeleteColumns t]"
    by (simp add: e delete_failed_def toast_error_def)
  show "toasts (handleDeleteTable b uid t w) =
        toasts w @ [ToastError (if msg = [] then ascii ''Table delete failed'' else msg)]"
    by (simp add: e delete_failed_def toast_error_def)
  show "ui (handleDeleteTable b uid t w) = ui w"
    by (simp add: e delete_failed_def toast_error_def)
next
  assume f: "failure b (DeleteRows t) = None \<and> failure b (DeleteColumns t) = None \<and>
    failure b (DeleteTable t) = Some msg"
  then have e: "handleDeleteTable b uid t w =
      delete_failed msg
        (w\<lparr>db := apply_call b (DeleteColumns t) (apply_call b (DeleteRows t) (db w)),
           calls := calls w @ [DeleteRows t] @ [DeleteColumns t] @ [DeleteTable t]\<rparr>)"
    by (simp add: handleDeleteTable_def request_failed request_ok)
  show "calls (handleDeleteTable b uid t w) =
        calls w @ [DeleteRows t, DeleteColumns t, DeleteTable t]"
    by (simp add: e delete_failed_def toast_error_def)
  show "toasts (handleDeleteTable b uid t w) =
        toasts w @ [ToastError (if msg = [] then ascii ''Table delete failed'' else msg)]"
    by (simp add: e delete_failed_def toast_error_def)
  show "ui (handleDeleteTable b uid t w) = ui w"
    by (simp add: e delete_failed_def toast_error_def)
next
  assume f: "failure b (DeleteRows t) = None \<and> failure b (DeleteColumns t) = None \<and>
    failure b (DeleteTable t) = None"
  define w3 where "w3 =
     w\<lparr>db := apply_call b (DeleteTable t)
               (apply_call b (DeleteColumns t) (apply_call b (DeleteRows t) (db w))),
       calls := calls w @ [DeleteRows t] @ [DeleteColumns t] @ [DeleteTable t],
       toasts := toasts w @ [ToastSuccess (ascii ''Table deleted'')]\<rparr>"
  define w5 where "w5 =
     (if (case selectedTable (ui w) of None \<Rightarrow> False | Some s \<Rightarrow> t_id s = t)
      then w3\<lparr>ui := (ui w3)\<lparr>selectedTable := None, columns := [], rows := []\<rparr>\<rparr>
      else w3)"
  have e: "handleDeleteTable b uid t w = loadTables b uid (selectedTable (ui w)) w5"
    using f by (simp add: handleDeleteTable_def request_ok toast_success_def Let_def w3_def
        w5_def)
  have c5: "calls w5 = calls w @ [DeleteRows t, DeleteColumns t, DeleteTable t]"
    by (simp add: w5_def w3_def)
  have t5: "toasts w5 = toasts w @ [ToastSuccess (ascii ''Table deleted'')]"
    by (simp add: w5_def w3_def)
  have d5: "db w5 = apply_call b (DeleteTable t)
               (apply_call b (DeleteColumns t) (apply_call b (DeleteRows t) (db w)))"
    by (simp add: w5_def w3_def)
  note l = loadTables_effect [of b uid "selectedTable (ui w)" w5]
  show "take (length (calls w) + 3) (calls (handleDeleteTable b uid t w)) =
        calls w @ [DeleteRows t, DeleteColumns t, DeleteTable t]"
  proof -
    from l have "take (length (calls w5)) (calls (handleDeleteTable b uid t w)) = calls w5"
      by (simp add: e)
    then show ?thesis by (simp add: c5 numeral_3_eq_3)
  qed
  show "filter is_delete (calls (handleDeleteTable b uid t w)) =
        filter is_delete (calls w) @ [DeleteRows t, DeleteColumns t, DeleteTable t]"
    using l by (simp add: e c5)
  show "ToastSuccess (ascii ''Table deleted'') \<in> set (toasts (handleDeleteTable b uid t w))"
    using l by (auto simp: e t5)
  show "db (handleDeleteTable b uid t w) =
        apply_call b (DeleteTable t)
          (apply_call b (DeleteColumns t) (apply_call b (DeleteRows t) (db w)))"
    using l by (simp add: e d5)
qed


theorem delete_table_order_witness:
  "failure columns_refused (DeleteRows (ascii ''t1'')) = None \<and>
   failure columns_refused (DeleteColumns (ascii ''t1'')) = Some (ascii ''permission denied'') \<and>
   calls (handleDeleteTable columns_refused (Some (ascii ''u1'')) (ascii ''t1'') sales_world) =
     [DeleteRows (ascii ''t1''), DeleteColumns (ascii ''t1'')] \<and>
   toasts (handleDeleteTable columns_refused (Some (ascii ''u1'')) (ascii ''t1'') sales_world) =
     [ToastError (ascii ''permission denied'')] \<and>
   failure reliable (DeleteRows (ascii ''t1'')) = None \<and>
   failure reliable (DeleteColumns (ascii ''t1'')) = None \<and>
   failure reliable (DeleteTable (ascii ''t1'')) = None \<and>
   filter is_delete (calls (handleDeleteTable reliable (Some (ascii ''u1'')) (ascii ''t1'') sales_world)) =
     [DeleteRows (ascii ''t1''), DeleteColumns (ascii ''t1''), DeleteTable (ascii ''t1'')]"
proof -
  have f: "failure columns_refused (DeleteRows (ascii ''t1'')) = None"
    "failure columns_refused (DeleteColumns (ascii ''t1'')) = Some (ascii ''permission denied'')"
    "failure reliable (DeleteRows (ascii ''t1'')) = None"
    "failure reliable (DeleteColumns (ascii ''t1'')) = None"
    "failure reliable (DeleteTable (ascii ''t1'')) = None"
    by (simp_all add: columns_refused_def reliable_def)
  have n: "ascii ''permission denied'' \<noteq> []" by (simp add: ascii_def)
  have w: "calls sales_world = []" "toasts sales_world = []"
    by (simp_all add: sales_world_def)
  show ?thesis
    using f n w
      delete_table_order [of columns_refused "ascii ''t1''" "ascii ''permission denied''"
        "Some (ascii ''u1'')" sales_world]
      delete_table_order [of reliable "ascii ''t1''" "ascii ''permission denied''"
        "Some (ascii ''u1'')" sales_world]
    by simp
qed

subsection \<open>Adding a column\<close>

lemma get_update:
  "get (AList.update k v rd) k' = (if k' = k then v else get rd k')"
  by (simp add: get_def update_conv')






lemma row_updated_other_table:
  "r_table_id r \<noteq> tid \<Longrightarrow> row_updated f tid r = r"
  by (simp add: row_updated_def)








subsection \<open>Renaming and retyping a column\<close>












end
